theory Spec2Isabelle
  imports Complex_Main
begin

section \<open>JavaScript values used by the DAH extractor\<close>

text \<open>
  The extractor is written in JavaScript. Its parsers and its converter are pure functions
  over strings, numbers, arrays and plain objects. This theory embeds them as HOL functions:
  \<^item> a string is a list of code units; the model covers the code units below 256
    (Latin-1), which is the type \<^typ>\<open>char\<close>. The degree sign is \<open>CHR 0xB0\<close>;
  \<^item> a number is NaN, an infinity or an exact rational: rounding to IEEE doubles and
    the sign of zero are not modelled;
  \<^item> \<open>undefined\<close> and \<open>null\<close> are \<open>None\<close> of an option type;
  \<^item> an object literal is a record, a thrown exception is an \<open>Inl\<close> result.
\<close>

subsection \<open>Strings\<close>

definition cu :: "char \<Rightarrow> nat" where
  "cu c = of_char c"

text \<open>White space and line terminators of ECMAScript below 256: TAB, LF, VT, FF, CR,
  SP and NBSP. \<open>String.prototype.trim\<close>, \<open>parseInt\<close>, \<open>parseFloat\<close> and the
  regular-expression class \<open>\s\<close> all use this set.\<close>

definition isSpace :: "char \<Rightarrow> bool" where
  "isSpace c = (cu c = 9 \<or> cu c = 10 \<or> cu c = 11 \<or> cu c = 12 \<or> cu c = 13 \<or> cu c = 32 \<or> cu c = 160)"

definition isDigit :: "char \<Rightarrow> bool" where
  "isDigit c = (48 \<le> cu c \<and> cu c \<le> 57)"

definition isHexDigit :: "char \<Rightarrow> bool" where
  "isHexDigit c = (isDigit c \<or> (65 \<le> cu c \<and> cu c \<le> 70) \<or> (97 \<le> cu c \<and> cu c \<le> 102))"

definition trimStart :: "string \<Rightarrow> string" where
  "trimStart s = dropWhile isSpace s"

definition trim :: "string \<Rightarrow> string" where
  "trim s = rev (dropWhile isSpace (rev (dropWhile isSpace s)))"

text \<open>Case mapping of single code units. The upper-case forms of U+00B5 and U+00FF lie
  beyond U+00FF; the model leaves these two code units unchanged.\<close>

definition upperChar :: "char \<Rightarrow> char" where
  "upperChar c =
     (if (97 \<le> cu c \<and> cu c \<le> 122) \<or> (224 \<le> cu c \<and> cu c \<le> 254 \<and> cu c \<noteq> 247)
      then char_of (cu c - 32) else c)"

definition lowerChar :: "char \<Rightarrow> char" where
  "lowerChar c =
     (if (65 \<le> cu c \<and> cu c \<le> 90) \<or> (192 \<le> cu c \<and> cu c \<le> 222 \<and> cu c \<noteq> 215)
      then char_of (cu c + 32) else c)"

text \<open>\<open>toUpperCase\<close> maps U+00DF (sharp s) to the two letters SS.\<close>

definition toUpperCase :: "string \<Rightarrow> string" where
  "toUpperCase s = concat (map (\<lambda>c. if cu c = 223 then ''SS'' else [upperChar c]) s)"

definition toLowerCase :: "string \<Rightarrow> string" where
  "toLowerCase s = map lowerChar s"

fun startsWith :: "string \<Rightarrow> string \<Rightarrow> bool" where
  "startsWith s [] = True"
| "startsWith [] (p # ps) = False"
| "startsWith (c # s) (p # ps) = (c = p \<and> startsWith s ps)"

fun includesStr :: "string \<Rightarrow> string \<Rightarrow> bool" where
  "includesStr [] sub = (sub = [])"
| "includesStr (c # s) sub = (startsWith (c # s) sub \<or> includesStr s sub)"

text \<open>\<open>s.split(sep)\<close> for a separator of one code unit, and for a regular expression
  that is a class of single code units: the pieces between separators, empty pieces kept.\<close>

fun splitAcc :: "(char \<Rightarrow> bool) \<Rightarrow> string \<Rightarrow> string \<Rightarrow> string list" where
  "splitAcc p acc [] = [rev acc]"
| "splitAcc p acc (c # s) = (if p c then rev acc # splitAcc p [] s else splitAcc p (c # acc) s)"

definition split :: "(char \<Rightarrow> bool) \<Rightarrow> string \<Rightarrow> string list" where
  "split p s = splitAcc p [] s"

definition isNewline :: "char \<Rightarrow> bool" where
  "isNewline c = (cu c = 10)"

definition isComma :: "char \<Rightarrow> bool" where
  "isComma c = (c = CHR '','')"

text \<open>\<open>x || d\<close> for a string or \<open>undefined\<close>: the empty string is falsy.\<close>

definition orElse :: "string option \<Rightarrow> string \<Rightarrow> string" where
  "orElse x d = (case x of None \<Rightarrow> d | Some s \<Rightarrow> if s = [] then d else s)"

definition truthy :: "string option \<Rightarrow> bool" where
  "truthy x = (case x of None \<Rightarrow> False | Some s \<Rightarrow> s \<noteq> [])"

text \<open>String concatenation with a value that may be \<open>undefined\<close>.\<close>

definition toStr :: "string option \<Rightarrow> string" where
  "toStr x = (case x of None \<Rightarrow> ''undefined'' | Some s \<Rightarrow> s)"

subsection \<open>Numbers\<close>

datatype jsnum = NaN | PosInf | NegInf | Fin rat

definition digitVal :: "char \<Rightarrow> nat" where
  "digitVal c = (if isDigit c then cu c - 48 else if 97 \<le> cu c then cu c - 87 else cu c - 55)"

definition digitsVal :: "int \<Rightarrow> string \<Rightarrow> int" where
  "digitsVal radix s = foldl (\<lambda>a c. radix * a + int (digitVal c)) 0 s"

text \<open>The decimal form of a natural number, as a template literal prints an index.\<close>

fun decimal :: "nat \<Rightarrow> string" where
  "decimal n = (if n < 10 then [char_of (48 + n)] else decimal (n div 10) @ [char_of (48 + n mod 10)])"

declare decimal.simps [simp del]

text \<open>\<open>parseInt(s)\<close> with no radix: leading white space, a sign, the prefix \<open>0x\<close> for
  radix 16, then the longest run of digits; \<open>None\<close> is NaN.\<close>

definition parseInt :: "string \<Rightarrow> int option" where
  "parseInt str =
     (let s = trimStart str;
          neg = startsWith s ''-'';
          s1 = (if startsWith s ''-'' \<or> startsWith s ''+'' then drop 1 s else s);
          hex = (startsWith s1 ''0x'' \<or> startsWith s1 ''0X'');
          s2 = (if hex then drop 2 s1 else s1);
          z = takeWhile (if hex then isHexDigit else isDigit) s2
      in if z = [] then None
         else Some ((if neg then - 1 else 1) * digitsVal (if hex then 16 else 10) z))"

definition exponentPart :: "string \<Rightarrow> int" where
  "exponentPart r =
     (if startsWith r ''e'' \<or> startsWith r ''E'' then
        (let t = drop 1 r;
             neg = startsWith t ''-'';
             t1 = (if startsWith t ''-'' \<or> startsWith t ''+'' then drop 1 t else t);
             ds = takeWhile isDigit t1
         in if ds = [] then 0 else (if neg then - 1 else 1) * digitsVal 10 ds)
      else 0)"

definition pow10 :: "int \<Rightarrow> rat" where
  "pow10 e = (if 0 \<le> e then 10 ^ nat e else 1 / 10 ^ nat (- e))"

text \<open>\<open>parseFloat(s)\<close>: leading white space, then the longest prefix that is a decimal
  literal (a sign, \<open>Infinity\<close>, or digits with an optional fraction and exponent).\<close>

definition parseFloat :: "string \<Rightarrow> jsnum" where
  "parseFloat str =
     (let s = trimStart str;
          neg = startsWith s ''-'';
          s1 = (if startsWith s ''-'' \<or> startsWith s ''+'' then drop 1 s else s)
      in if startsWith s1 ''Infinity'' then (if neg then NegInf else PosInf)
         else
           (let ip = takeWhile isDigit s1;
                r1 = dropWhile isDigit s1;
                dot = startsWith r1 ''.'';
                fp = (if dot then takeWhile isDigit (drop 1 r1) else []);
                r2 = (if dot then dropWhile isDigit (drop 1 r1) else r1)
            in if ip = [] \<and> fp = [] then NaN
               else Fin ((if neg then - 1 else 1) * (of_int (digitsVal 10 (ip @ fp)) / 10 ^ length fp)
                            * pow10 (exponentPart r2))))"


definition num :: "int option \<Rightarrow> jsnum" where
  "num x = (case x of None \<Rightarrow> NaN | Some i \<Rightarrow> Fin (of_int i))"

fun jadd :: "jsnum \<Rightarrow> jsnum \<Rightarrow> jsnum" where
  "jadd (Fin a) (Fin b) = Fin (a + b)"
| "jadd NaN y = NaN"
| "jadd x NaN = NaN"
| "jadd PosInf NegInf = NaN"
| "jadd NegInf PosInf = NaN"
| "jadd PosInf y = PosInf"
| "jadd NegInf y = NegInf"
| "jadd x PosInf = PosInf"
| "jadd x NegInf = NegInf"

text \<open>Division by a positive constant, and negation (\<open>decimal *= -1\<close>).\<close>

fun jdiv :: "jsnum \<Rightarrow> rat \<Rightarrow> jsnum" where
  "jdiv (Fin a) c = Fin (a / c)"
| "jdiv x c = x"

fun jneg :: "jsnum \<Rightarrow> jsnum" where
  "jneg (Fin a) = Fin (- a)"
| "jneg PosInf = NegInf"
| "jneg NegInf = PosInf"
| "jneg NaN = NaN"

text \<open>\<open>parseFloat(x.toFixed(6))\<close>: rounding to six decimals, halves away from zero.\<close>

definition round6 :: "rat \<Rightarrow> rat" where
  "round6 q = (if q < 0 then - (of_int \<lfloor>- q * 1000000 + 1 / 2\<rfloor> / 1000000)
               else of_int \<lfloor>q * 1000000 + 1 / 2\<rfloor> / 1000000)"

fun toFixed6 :: "jsnum \<Rightarrow> jsnum" where
  "toFixed6 (Fin q) = Fin (round6 q)"
| "toFixed6 x = x"

datatype jsarg = Num jsnum | Str string

subsection \<open>Regular expressions\<close>

text \<open>
  The regular expressions of the source are written as terms of \<open>regex\<close> and run by a
  backtracking matcher with the priorities of ECMAScript: the first alternative first,
  a greedy quantifier longest first, a lazy one shortest first. In every expression of the
  source the operand of \<open>*\<close> and \<open>+\<close> is a single code unit or a class, so \<open>Star\<close> and
  \<open>StarLazy\<close> take an \<open>atom\<close>. The flag \<open>ic\<close> is the flag \<open>i\<close>.
\<close>

datatype citem = Lit char | Range char char | Digit | Space

datatype atom = Ch char | In "citem list" | NotIn "citem list" | Dot

datatype regex = Eps | One atom | Star atom | StarLazy atom | Bol | Eol
  | Seq regex regex | Alt regex regex | Group nat regex

fun item_ok :: "bool \<Rightarrow> citem \<Rightarrow> char \<Rightarrow> bool" where
  "item_ok ic (Lit a) c = (if ic then upperChar a = upperChar c else a = c)"
| "item_ok ic (Range a b) c =
     ((cu a \<le> cu c \<and> cu c \<le> cu b) \<or>
      (ic \<and> ((cu a \<le> cu (upperChar c) \<and> cu (upperChar c) \<le> cu b) \<or>
              (cu a \<le> cu (lowerChar c) \<and> cu (lowerChar c) \<le> cu b))))"
| "item_ok ic Digit c = isDigit c"
| "item_ok ic Space c = isSpace c"

fun atom_ok :: "bool \<Rightarrow> atom \<Rightarrow> char \<Rightarrow> bool" where
  "atom_ok ic (Ch a) c = item_ok ic (Lit a) c"
| "atom_ok ic (In xs) c = list_ex (\<lambda>x. item_ok ic x c) xs"
| "atom_ok ic (NotIn xs) c = (\<not> list_ex (\<lambda>x. item_ok ic x c) xs)"
| "atom_ok ic Dot c = (cu c \<noteq> 10 \<and> cu c \<noteq> 13)"

text \<open>A matcher state is the index of the next code unit, the input from there on and the
  captures made so far (the latest first). A matcher takes its continuation.\<close>

type_synonym caps = "(nat \<times> string) list"
type_synonym mstate = "nat \<times> string \<times> caps"
type_synonym cont = "mstate \<Rightarrow> mstate option"

primrec rx_greedy :: "(char \<Rightarrow> bool) \<Rightarrow> cont \<Rightarrow> nat \<Rightarrow> caps \<Rightarrow> string \<Rightarrow> mstate option" where
  "rx_greedy p k i cs [] = k (i, [], cs)"
| "rx_greedy p k i cs (c # s) =
     (if p c then (case rx_greedy p k (Suc i) cs s of Some r \<Rightarrow> Some r | None \<Rightarrow> k (i, c # s, cs))
      else k (i, c # s, cs))"

primrec rx_lazy :: "(char \<Rightarrow> bool) \<Rightarrow> cont \<Rightarrow> nat \<Rightarrow> caps \<Rightarrow> string \<Rightarrow> mstate option" where
  "rx_lazy p k i cs [] = k (i, [], cs)"
| "rx_lazy p k i cs (c # s) =
     (case k (i, c # s, cs) of Some r \<Rightarrow> Some r
      | None \<Rightarrow> if p c then rx_lazy p k (Suc i) cs s else None)"

definition rx_capture :: "nat \<Rightarrow> mstate \<Rightarrow> cont \<Rightarrow> cont" where
  "rx_capture n st0 k st1 =
     k (fst st1, fst (snd st1), (n, take (fst st1 - fst st0) (fst (snd st0))) # snd (snd st1))"

primrec rx_match :: "bool \<Rightarrow> regex \<Rightarrow> cont \<Rightarrow> mstate \<Rightarrow> mstate option" where
  "rx_match ic Eps k st = k st"
| "rx_match ic (One a) k st =
     (case st of (i, s, cs) \<Rightarrow>
        (case s of [] \<Rightarrow> None | c # s' \<Rightarrow> if atom_ok ic a c then k (Suc i, s', cs) else None))"
| "rx_match ic (Star a) k st = (case st of (i, s, cs) \<Rightarrow> rx_greedy (atom_ok ic a) k i cs s)"
| "rx_match ic (StarLazy a) k st = (case st of (i, s, cs) \<Rightarrow> rx_lazy (atom_ok ic a) k i cs s)"
| "rx_match ic Bol k st = (if fst st = 0 then k st else None)"
| "rx_match ic Eol k st = (if fst (snd st) = [] then k st else None)"
| "rx_match ic (Seq a b) k st = rx_match ic a (rx_match ic b k) st"
| "rx_match ic (Alt a b) k st =
     (case rx_match ic a k st of Some r \<Rightarrow> Some r | None \<Rightarrow> rx_match ic b k st)"
| "rx_match ic (Group n r) k st = rx_match ic r (rx_capture n st k) st"

text \<open>The result of \<open>RegExp.prototype.exec\<close>: where the match starts, the matched text and
  the captures. A group that took no part in the match has no entry (\<open>undefined\<close>).\<close>

record rmatch =
  index :: nat
  whole :: string
  groups :: caps

definition mk_match :: "nat \<Rightarrow> string \<Rightarrow> mstate \<Rightarrow> rmatch" where
  "mk_match i s st = \<lparr>index = i, whole = take (fst st - i) s, groups = snd (snd st)\<rparr>"

definition grp :: "rmatch \<Rightarrow> nat \<Rightarrow> string option" where
  "grp mt n = map_of (groups mt) n"

text \<open>\<open>rx_exec ic r i s\<close> looks for the first match at or after index \<open>i\<close>, where \<open>s\<close> is
  the input from index \<open>i\<close> on.\<close>

fun rx_exec :: "bool \<Rightarrow> regex \<Rightarrow> nat \<Rightarrow> string \<Rightarrow> rmatch option" where
  "rx_exec ic r i [] =
     (case rx_match ic r Some (i, [], []) of Some st \<Rightarrow> Some (mk_match i [] st) | None \<Rightarrow> None)"
| "rx_exec ic r i (c # s) =
     (case rx_match ic r Some (i, c # s, []) of Some st \<Rightarrow> Some (mk_match i (c # s) st)
      | None \<Rightarrow> rx_exec ic r (Suc i) s)"

text \<open>\<open>s.match(r)\<close> and \<open>r.test(s)\<close> for an expression without the flag \<open>g\<close>.\<close>

definition match :: "bool \<Rightarrow> regex \<Rightarrow> string \<Rightarrow> rmatch option" where
  "match ic r s = rx_exec ic r 0 s"

text \<open>\<open>s.replace(r, '')\<close> for an expression without the flag \<open>g\<close>: the first match is cut out.\<close>

definition removeFirst :: "bool \<Rightarrow> regex \<Rightarrow> string \<Rightarrow> string" where
  "removeFirst ic r s =
     (case match ic r s of None \<Rightarrow> s
      | Some mt \<Rightarrow> take (index mt) s @ drop (index mt + length (whole mt)) s)"

text \<open>The index at which the search goes on after a match: its end, or one code unit
  further when the match is empty.\<close>

definition nextIndex :: "rmatch \<Rightarrow> nat" where
  "nextIndex mt = (if whole mt = [] then Suc (index mt) else index mt + length (whole mt))"

text \<open>\<open>s.matchAll(r)\<close> for an expression with the flag \<open>g\<close>: all matches from left to right.
  The search goes on strictly to the right of where it began, so the loop ends.\<close>

function rx_all :: "bool \<Rightarrow> regex \<Rightarrow> nat \<Rightarrow> string \<Rightarrow> rmatch list" where
  "rx_all ic r i s =
     (case rx_exec ic r i s of None \<Rightarrow> []
      | Some mt \<Rightarrow> if s = [] then [mt] else mt # rx_all ic r (nextIndex mt) (drop (nextIndex mt - i) s))"
  by pat_completeness auto
termination
proof (relation "measure (\<lambda>(ic, r, i, s). length s)")
  show "wf (measure (\<lambda>(ic, r, i, s). length s))"
    by simp
next
  fix ic r i s mt
  assume found: "rx_exec ic r i s = Some mt" and nonempty: "s \<noteq> []"
  have start: "j \<le> index m'" if "rx_exec ic r j t = Some m'" for j t m'
    using that
  proof (induction t arbitrary: j)
    case Nil
    then show ?case
      by (cases "rx_match ic r Some (j, [], [])") (auto simp: mk_match_def)
  next
    case (Cons c t)
    show ?case
    proof (cases "rx_match ic r Some (j, c # t, [])")
      case None
      with Cons.prems have "rx_exec ic r (Suc j) t = Some m'"
        by simp
      then have "Suc j \<le> index m'"
        by (rule Cons.IH)
      then show ?thesis
        by simp
    next
      case (Some st)
      with Cons.prems show ?thesis
        by (auto simp: mk_match_def)
    qed
  qed
  have "i < nextIndex mt"
    using start [OF found] by (cases "whole mt") (simp_all add: nextIndex_def)
  with nonempty show "((ic, r, nextIndex mt, drop (nextIndex mt - i) s), (ic, r, i, s))
               \<in> measure (\<lambda>(ic, r, i, s). length s)"
    by (cases s) simp_all
qed

declare rx_all.simps [simp del]

definition matchAll :: "bool \<Rightarrow> regex \<Rightarrow> string \<Rightarrow> rmatch list" where
  "matchAll ic r s = rx_all ic r 0 s"

text \<open>Notation of the source's expressions: \<open>seqs\<close> a sequence, \<open>alts\<close> alternatives,
  \<open>lit\<close> literal text, \<open>Opt r\<close> for \<open>r?\<close>, \<open>Plus a\<close> for \<open>a+\<close>, \<open>PlusLazy a\<close> for \<open>a+?\<close>,
  \<open>Times n a\<close> for \<open>a{n}\<close>.\<close>

definition seqs :: "regex list \<Rightarrow> regex" where
  "seqs rs = foldr Seq rs Eps"

definition alts :: "regex list \<Rightarrow> regex" where
  "alts rs = foldr Alt (butlast rs) (last rs)"

definition lit :: "string \<Rightarrow> regex" where
  "lit s = seqs (map (\<lambda>c. One (Ch c)) s)"

definition Opt :: "regex \<Rightarrow> regex" where
  "Opt r = Alt r Eps"

definition Plus :: "atom \<Rightarrow> regex" where
  "Plus a = Seq (One a) (Star a)"

definition PlusLazy :: "atom \<Rightarrow> regex" where
  "PlusLazy a = Seq (One a) (StarLazy a)"

definition Times :: "nat \<Rightarrow> atom \<Rightarrow> regex" where
  "Times n a = seqs (replicate n (One a))"

definition digit :: atom where
  "digit = In [Digit]"

definition space :: atom where
  "space = In [Space]"

definition AZ :: atom where
  "AZ = In [Range CHR ''A'' CHR ''Z'']"


subsection \<open>\<open>JSON.parse\<close>: which texts are JSON\<close>

text \<open>
  The format detector calls \<open>JSON.parse\<close> only to see whether it throws. The model is a
  recogniser of the JSON grammar (ECMA-404): a lexer over the code units, then a pushdown
  check of the token sequence. A number must be followed by white space, a comma, a closing
  bracket or the end of the text; the lexer rejects anything else there, as no JSON text
  continues otherwise.
\<close>

datatype jtok = LBrace | RBrace | LBrack | RBrack | Colon | Comma | TStr | TNum | TLit

datatype lexmode = Top | InStr | Esc | Hex nat | InLit string
  | NMinus | NZero | NInt | NDot | NFrac | NExpE | NExpSign | NExp

definition isJsonSpace :: "char \<Rightarrow> bool" where
  "isJsonSpace c = (cu c = 9 \<or> cu c = 10 \<or> cu c = 13 \<or> cu c = 32)"

definition emit :: "jtok \<Rightarrow> jtok list option \<Rightarrow> jtok list option" where
  "emit t r = map_option ((#) t) r"

fun jlex :: "lexmode \<Rightarrow> string \<Rightarrow> jtok list option"
  and numEnd :: "char \<Rightarrow> string \<Rightarrow> jtok list option" where
  "jlex Top [] = Some []"
| "jlex Top (c # s) =
     (if isJsonSpace c then jlex Top s
      else if c = CHR ''{'' then emit LBrace (jlex Top s)
      else if c = CHR ''}'' then emit RBrace (jlex Top s)
      else if c = CHR ''['' then emit LBrack (jlex Top s)
      else if c = CHR '']'' then emit RBrack (jlex Top s)
      else if c = CHR '':'' then emit Colon (jlex Top s)
      else if c = CHR '','' then emit Comma (jlex Top s)
      else if c = CHR 0x22 then jlex InStr s
      else if c = CHR ''-'' then jlex NMinus s
      else if c = CHR ''0'' then jlex NZero s
      else if isDigit c then jlex NInt s
      else if c = CHR ''t'' then jlex (InLit ''rue'') s
      else if c = CHR ''f'' then jlex (InLit ''alse'') s
      else if c = CHR ''n'' then jlex (InLit ''ull'') s
      else None)"
| "jlex InStr [] = None"
| "jlex InStr (c # s) =
     (if c = CHR 0x22 then emit TStr (jlex Top s)
      else if c = CHR 0x5C then jlex Esc s
      else if cu c < 32 then None
      else jlex InStr s)"
| "jlex Esc [] = None"
| "jlex Esc (c # s) =
     (if c = CHR ''u'' then jlex (Hex 4) s
      else if c \<in> set [CHR 0x22, CHR 0x5C, CHR ''/'', CHR ''b'', CHR ''f'', CHR ''n'', CHR ''r'', CHR ''t'']
      then jlex InStr s
      else None)"
| "jlex (Hex n) [] = None"
| "jlex (Hex n) (c # s) =
     (if isHexDigit c then (if n \<le> 1 then jlex InStr s else jlex (Hex (n - 1)) s) else None)"
| "jlex (InLit w) [] = None"
| "jlex (InLit w) (c # s) =
     (case w of [] \<Rightarrow> None
      | x # xs \<Rightarrow> if c = x then (if xs = [] then emit TLit (jlex Top s) else jlex (InLit xs) s)
                 else None)"
| "jlex NMinus [] = None"
| "jlex NMinus (c # s) =
     (if c = CHR ''0'' then jlex NZero s else if isDigit c then jlex NInt s else None)"
| "jlex NZero [] = Some [TNum]"
| "jlex NZero (c # s) =
     (if c = CHR ''.'' then jlex NDot s
      else if c = CHR ''e'' \<or> c = CHR ''E'' then jlex NExpE s
      else numEnd c s)"
| "jlex NInt [] = Some [TNum]"
| "jlex NInt (c # s) =
     (if isDigit c then jlex NInt s
      else if c = CHR ''.'' then jlex NDot s
      else if c = CHR ''e'' \<or> c = CHR ''E'' then jlex NExpE s
      else numEnd c s)"
| "jlex NDot [] = None"
| "jlex NDot (c # s) = (if isDigit c then jlex NFrac s else None)"
| "jlex NFrac [] = Some [TNum]"
| "jlex NFrac (c # s) =
     (if isDigit c then jlex NFrac s
      else if c = CHR ''e'' \<or> c = CHR ''E'' then jlex NExpE s
      else numEnd c s)"
| "jlex NExpE [] = None"
| "jlex NExpE (c # s) =
     (if c = CHR ''+'' \<or> c = CHR ''-'' then jlex NExpSign s
      else if isDigit c then jlex NExp s else None)"
| "jlex NExpSign [] = None"
| "jlex NExpSign (c # s) = (if isDigit c then jlex NExp s else None)"
| "jlex NExp [] = Some [TNum]"
| "jlex NExp (c # s) = (if isDigit c then jlex NExp s else numEnd c s)"
| "numEnd c s =
     (if isJsonSpace c then emit TNum (jlex Top s)
      else if c = CHR '','' then emit TNum (emit Comma (jlex Top s))
      else if c = CHR '']'' then emit TNum (emit RBrack (jlex Top s))
      else if c = CHR ''}'' then emit TNum (emit RBrace (jlex Top s))
      else None)"

text \<open>The token check: \<open>Val\<close> expects a value, \<open>ValOrClose\<close> a value or \<open>]\<close>,
  \<open>KeyOrClose\<close> a key or \<open>}\<close>, \<open>Key\<close> a key, \<open>AfterKey\<close> the colon, and \<open>After\<close>
  follows a complete value. The stack holds the open brackets.\<close>

datatype jctx = InArr | InObj

datatype jstate = Val | ValOrClose | KeyOrClose | Key | AfterKey | After

fun jparse :: "jstate \<Rightarrow> jctx list \<Rightarrow> jtok list \<Rightarrow> bool" where
  "jparse st stack [] = (st = After \<and> stack = [])"
| "jparse Val stack (t # ts) =
     (if t = TStr \<or> t = TNum \<or> t = TLit then jparse After stack ts
      else if t = LBrack then jparse ValOrClose (InArr # stack) ts
      else if t = LBrace then jparse KeyOrClose (InObj # stack) ts
      else False)"
| "jparse ValOrClose stack (t # ts) =
     (if t = RBrack then (case stack of InArr # rest \<Rightarrow> jparse After rest ts | _ \<Rightarrow> False)
      else if t = TStr \<or> t = TNum \<or> t = TLit then jparse After stack ts
      else if t = LBrack then jparse ValOrClose (InArr # stack) ts
      else if t = LBrace then jparse KeyOrClose (InObj # stack) ts
      else False)"
| "jparse KeyOrClose stack (t # ts) =
     (if t = RBrace then (case stack of InObj # rest \<Rightarrow> jparse After rest ts | _ \<Rightarrow> False)
      else if t = TStr then jparse AfterKey stack ts
      else False)"
| "jparse Key stack (t # ts) = (if t = TStr then jparse AfterKey stack ts else False)"
| "jparse AfterKey stack (t # ts) = (if t = Colon then jparse Val stack ts else False)"
| "jparse After stack (t # ts) =
     (case stack of
        [] \<Rightarrow> False
      | InArr # rest \<Rightarrow>
          (if t = Comma then jparse Val stack ts
           else if t = RBrack then jparse After rest ts else False)
      | InObj # rest \<Rightarrow>
          (if t = Comma then jparse Key stack ts
           else if t = RBrace then jparse After rest ts else False))"

text \<open>\<open>jsonValid s\<close>: \<open>JSON.parse(s)\<close> returns rather than throws.\<close>

definition jsonValid :: "string \<Rightarrow> bool" where
  "jsonValid s = (case jlex Top s of None \<Rightarrow> False | Some ts \<Rightarrow> jparse Val [] ts)"

section \<open>The format-dispatching parser\<close>

text \<open>
  The parser module with \<open>detectFileFormat\<close> and one parsing function per format. Each
  parsing function fills \<open>parsedData.airspaces\<close> and returns \<open>parsedData\<close>; the model
  returns the list of airspaces.
\<close>

subsection \<open>\<open>detectFileFormat\<close>\<close>

datatype format = Json | Csv | Structured_text | Generic

definition csvHeader :: "string \<Rightarrow> bool" where
  "csvHeader content =
     (let lines = split isNewline content
      in length lines > 1 \<and> includesStr (hd lines) '','' \<and>
         (let firstLine = toLowerCase (hd lines)
          in includesStr firstLine ''airspace'' \<or> includesStr firstLine ''latitude'' \<or>
             includesStr firstLine ''name''))"

definition detectFileFormat :: "string \<Rightarrow> format" where
  "detectFileFormat content =
     (if (startsWith (trim content) ''{'' \<or> startsWith (trim content) ''['') \<and> jsonValid content
      then Json
      else if csvHeader content then Csv
      else if includesStr content ''AIRSPACE'' \<or> includesStr content ''Airspace'' \<or>
              includesStr content ''UPPER LIMIT'' \<or> includesStr content ''LOWER LIMIT''
      then Structured_text
      else Generic)"

subsection \<open>\<open>parseCoordinate\<close>\<close>

text \<open>The expression \<open>/(\d+)[\<degree>\s]+(\d+)['\s]+(\d+\.?\d*)["\s]*([NSEW])/i\<close>.\<close>

definition dmsRe :: regex where
  "dmsRe = seqs [Group 1 (Plus digit), Plus (In [Lit (CHR 0xB0), Space]),
     Group 2 (Plus digit), Plus (In [Lit (CHR 0x27), Space]),
     Group 3 (seqs [Plus digit, Opt (lit ''.''), Star digit]), Star (In [Lit (CHR 0x22), Space]),
     Group 4 (One (In [Lit CHR ''N'', Lit CHR ''S'', Lit CHR ''E'', Lit CHR ''W'']))]"

fun parseCoordinate :: "jsarg \<Rightarrow> jsnum" where
  "parseCoordinate (Num n) = n"
| "parseCoordinate (Str coord) =
     (let str = trim coord; decimal = parseFloat str
      in if decimal \<noteq> NaN then decimal
         else
           (case match True dmsRe str of
              Some dmsMatch \<Rightarrow>
                (let degrees = num (parseInt (toStr (grp dmsMatch 1)));
                     minutes = num (parseInt (toStr (grp dmsMatch 2)));
                     seconds = parseFloat (toStr (grp dmsMatch 3));
                     direction = toUpperCase (toStr (grp dmsMatch 4));
                     decimal = jadd (jadd degrees (jdiv minutes 60)) (jdiv seconds 3600)
                 in if direction = ''S'' \<or> direction = ''W'' then jneg decimal else decimal)
            | None \<Rightarrow> Fin 0))"

subsection \<open>\<open>parseCSVFormat\<close>\<close>

record columnMap =
  c_id :: "string option"
  c_name :: "string option"
  c_type :: "string option"
  c_latitude :: "string option"
  c_longitude :: "string option"
  c_upperLimit :: "string option"
  c_lowerLimit :: "string option"
  c_conditional :: "string option"
  c_sequence :: "string option"

definition mapColumn :: "columnMap \<Rightarrow> string \<Rightarrow> columnMap" where
  "mapColumn m header =
     (let lower = toLowerCase header
      in if includesStr lower ''airspace'' \<and> includesStr lower ''id'' then m\<lparr>c_id := Some header\<rparr>
         else if includesStr lower ''airspace'' \<and> includesStr lower ''name'' then m\<lparr>c_name := Some header\<rparr>
         else if lower = ''name'' \<and> \<not> truthy (c_name m) then m\<lparr>c_name := Some header\<rparr>
         else if includesStr lower ''type'' then m\<lparr>c_type := Some header\<rparr>
         else if includesStr lower ''lat'' then m\<lparr>c_latitude := Some header\<rparr>
         else if includesStr lower ''lon'' then m\<lparr>c_longitude := Some header\<rparr>
         else if includesStr lower ''upper'' then m\<lparr>c_upperLimit := Some header\<rparr>
         else if includesStr lower ''lower'' then m\<lparr>c_lowerLimit := Some header\<rparr>
         else if includesStr lower ''conditional'' then m\<lparr>c_conditional := Some header\<rparr>
         else if includesStr lower ''sequence'' then m\<lparr>c_sequence := Some header\<rparr>
         else m)"

definition mapColumnNames :: "string list \<Rightarrow> columnMap" where
  "mapColumnNames headers =
     foldl mapColumn
       \<lparr>c_id = None, c_name = None, c_type = None, c_latitude = None, c_longitude = None,
        c_upperLimit = None, c_lowerLimit = None, c_conditional = None, c_sequence = None\<rparr>
       headers"

fun csvLineLoop :: "string list \<Rightarrow> string \<Rightarrow> bool \<Rightarrow> string \<Rightarrow> string list" where
  "csvLineLoop result current inQuotes [] = result @ [current]"
| "csvLineLoop result current inQuotes (c # line) =
     (if c = CHR 0x22 then csvLineLoop result current (\<not> inQuotes) line
      else if c = CHR '','' \<and> \<not> inQuotes then csvLineLoop (result @ [current]) [] inQuotes line
      else csvLineLoop result (current @ [c]) inQuotes line)"

definition parseCSVLine :: "string \<Rightarrow> string list" where
  "parseCSVLine line = csvLineLoop [] [] False line"

text \<open>
  The row object \<open>airspace\<close> gets one property per header, a later column of the same name
  overwriting an earlier one. It is read as \<open>airspace[columnMap.role]\<close>, and a role that no
  header claimed is \<open>null\<close>, which as a property key is the string \<open>null\<close>. Every other
  key read is a header and so a property of the object itself.
\<close>

definition getProp :: "(string \<times> string) list \<Rightarrow> string option \<Rightarrow> string option" where
  "getProp obj key = map_of (rev obj) (case key of None \<Rightarrow> ''null'' | Some h \<Rightarrow> h)"

record point =
  latitude :: jsnum
  longitude :: jsnum

record seqPoint = point +
  sequence :: int

text \<open>The object \<open>structuredAirspace\<close>; \<open>conditional\<close> is a non-empty string or \<open>false\<close>
  (\<open>None\<close>).\<close>

record structuredAirspace =
  sa_id :: string
  sa_name :: string
  sa_type :: string
  sa_boundaries :: "seqPoint list"
  sa_upperLimit :: string
  sa_lowerLimit :: string
  sa_conditional :: "string option"

definition csvRow :: "string list \<Rightarrow> columnMap \<Rightarrow> nat \<Rightarrow> string \<Rightarrow> structuredAirspace option" where
  "csvRow headers cm i line =
     (let values = parseCSVLine line
      in if length values \<noteq> length headers then None
         else
           (let airspace = zip headers (map trim values)
            in Some \<lparr>sa_id = orElse (getProp airspace (c_id cm)) (''AIRSPACE_'' @ decimal i),
                     sa_name = orElse (getProp airspace (c_name cm)) ''Unknown'',
                     sa_type = orElse (getProp airspace (c_type cm)) ''UNKNOWN'',
                     sa_boundaries =
                       (if truthy (getProp airspace (c_latitude cm)) \<and> truthy (getProp airspace (c_longitude cm))
                        then [\<lparr>latitude = parseCoordinate (Str (toStr (getProp airspace (c_latitude cm)))),
                               longitude = parseCoordinate (Str (toStr (getProp airspace (c_longitude cm)))),
                               sequence = (case parseInt (toStr (getProp airspace (c_sequence cm))) of
                                             None \<Rightarrow> 0 | Some n \<Rightarrow> n)\<rparr>]
                        else []),
                     sa_upperLimit = orElse (getProp airspace (c_upperLimit cm)) ''UNL'',
                     sa_lowerLimit = orElse (getProp airspace (c_lowerLimit cm)) ''GND'',
                     sa_conditional =
                       (if truthy (getProp airspace (c_conditional cm)) then getProp airspace (c_conditional cm)
                        else None)\<rparr>))"

fun csvRows :: "string list \<Rightarrow> columnMap \<Rightarrow> nat \<Rightarrow> string list \<Rightarrow> structuredAirspace list" where
  "csvRows headers cm i [] = []"
| "csvRows headers cm i (line # lines) =
     (case csvRow headers cm i line of
        None \<Rightarrow> csvRows headers cm (Suc i) lines
      | Some a \<Rightarrow> a # csvRows headers cm (Suc i) lines)"

text \<open>
  The exceptions: the \<open>Error\<close> that \<open>parseCSVFormat\<close> throws for a text of fewer than two
  lines, and the \<open>TypeError\<close> of reading a property of \<open>undefined\<close> or \<open>null\<close> or of
  calling what is not a function.
\<close>

datatype error = CsvError | TypeError

text \<open>
  \<open>mergeAirspaceBoundaries\<close> groups in the object \<open>grouped = {}\<close>, here the list of its own
  properties in the order of their creation. \<open>grouped[id]\<close> also finds what an object
  inherits from \<open>Object.prototype\<close>: for such an \<open>id\<close> the test \<open>!grouped[id]\<close> is false,
  no group is created, \<open>grouped[id].boundaries\<close> is \<open>undefined\<close> and \<open>push\<close> throws.
\<close>

definition objectPrototypeKeys :: "string list" where
  "objectPrototypeKeys =
     [''constructor'', ''hasOwnProperty'', ''isPrototypeOf'', ''propertyIsEnumerable'',
      ''toLocaleString'', ''toString'', ''valueOf'', ''__proto__'', ''__defineGetter__'',
      ''__defineSetter__'', ''__lookupGetter__'', ''__lookupSetter__'']"

fun groupLoop :: "(string \<times> structuredAirspace) list \<Rightarrow> structuredAirspace list
    \<Rightarrow> error + (string \<times> structuredAirspace) list" where
  "groupLoop grouped [] = Inr grouped"
| "groupLoop grouped (airspace # rest) =
     (case map_of grouped (sa_id airspace) of
        Some g \<Rightarrow>
          groupLoop
            (map (\<lambda>(k, v). if k = sa_id airspace
                            then (k, v\<lparr>sa_boundaries := sa_boundaries v @ sa_boundaries airspace\<rparr>)
                            else (k, v)) grouped)
            rest
      | None \<Rightarrow>
          if sa_id airspace \<in> set objectPrototypeKeys then Inl TypeError
          else groupLoop (grouped @ [(sa_id airspace, airspace)]) rest)"

text \<open>Two notions for the proofs about \<open>groupLoop\<close>: the boundaries that the object
  \<open>grouped\<close> holds for an id, and that every property of \<open>grouped\<close> has the id of its airspace
  as its key, once.\<close>

definition bs_of :: "(string \<times> structuredAirspace) list \<Rightarrow> string \<Rightarrow> seqPoint list" where
  "bs_of g i = (case map_of g i of Some v \<Rightarrow> sa_boundaries v | None \<Rightarrow> [])"

definition keyed :: "(string \<times> structuredAirspace) list \<Rightarrow> bool" where
  "keyed g = (distinct (map fst g) \<and> (\<forall>(k, v)\<in>set g. sa_id v = k))"

text \<open>\<open>Object.values\<close> lists the properties whose key is an array index first, in
  ascending order, then the others in the order of their creation.\<close>

definition arrayIndex :: "string \<Rightarrow> int option" where
  "arrayIndex k =
     (if k \<noteq> [] \<and> list_all isDigit k \<and> (k = ''0'' \<or> \<not> startsWith k ''0'') \<and>
         digitsVal 10 k < 4294967295
      then Some (digitsVal 10 k) else None)"

definition objectValues :: "(string \<times> 'a) list \<Rightarrow> 'a list" where
  "objectValues obj =
     map snd (sort_key fst (List.map_filter (\<lambda>(k, v). map_option (\<lambda>n. (n, v)) (arrayIndex k)) obj))
     @ map snd (filter (\<lambda>(k, v). arrayIndex k = None) obj)"

text \<open>\<open>Array.prototype.sort\<close> is stable; the comparator is the difference of the sequence
  numbers.\<close>

definition mergeAirspaceBoundaries :: "structuredAirspace list \<Rightarrow> error + structuredAirspace list" where
  "mergeAirspaceBoundaries airspaces =
     (case groupLoop [] airspaces of
        Inl e \<Rightarrow> Inl e
      | Inr grouped \<Rightarrow>
          Inr (map (\<lambda>a. a\<lparr>sa_boundaries := sort_key sequence (sa_boundaries a)\<rparr>) (objectValues grouped)))"

text \<open>The lines that are not blank, and the airspaces that the loop over the data rows
  pushes to \<open>parsedData.airspaces\<close>.\<close>

definition csvLines :: "string \<Rightarrow> string list" where
  "csvLines content = filter (\<lambda>line. trim line \<noteq> []) (split isNewline content)"

definition csvAirspaces :: "string \<Rightarrow> structuredAirspace list" where
  "csvAirspaces content =
     (let lines = csvLines content;
          headers = map (\<lambda>h. toLowerCase (trim h)) (split isComma (hd lines));
          columnMap = mapColumnNames headers
      in csvRows headers columnMap 1 (tl lines))"

definition parseCSVFormat :: "string \<Rightarrow> error + structuredAirspace list" where
  "parseCSVFormat content =
     (if length (csvLines content) < 2 then Inl CsvError
      else mergeAirspaceBoundaries (csvAirspaces content))"

subsection \<open>\<open>parseStructuredText\<close> and \<open>parseGenericFormat\<close>\<close>

text \<open>The airspace object that both functions build.\<close>

record textAirspace =
  ta_id :: string
  ta_name :: string
  ta_boundaries :: "point list"
  ta_upperLimit :: string
  ta_lowerLimit :: string

definition idChars :: atom where
  "idChars = In [Range CHR ''A'' CHR ''Z'', Range CHR ''0'' CHR ''9'', Lit CHR ''-'']"

text \<open>\<open>/^[A-Z0-9-]+\s+[A-Z]/\<close>\<close>

definition nameLineRe :: regex where
  "nameLineRe = seqs [Bol, Plus idChars, Plus space, One AZ]"

text \<open>\<open>/^([A-Z0-9-]+)/\<close>\<close>

definition airspaceIdRe :: regex where
  "airspaceIdRe = seqs [Bol, Group 1 (Plus idChars)]"

definition extractAirspaceId :: "string \<Rightarrow> string" where
  "extractAirspaceId line =
     (case match False airspaceIdRe line of Some mt \<Rightarrow> toStr (grp mt 1) | None \<Rightarrow> ''UNKNOWN'')"

text \<open>\<open>/^[A-Z0-9-]+\s+(.+?)(\s+UPPER|\s+LOWER|$)/i\<close>\<close>

definition airspaceNameRe :: regex where
  "airspaceNameRe = seqs [Bol, Plus idChars, Plus space, Group 1 (PlusLazy Dot),
     Group 2 (alts [seqs [Plus space, lit ''UPPER''], seqs [Plus space, lit ''LOWER''], Eol])]"

definition extractAirspaceName :: "string \<Rightarrow> string" where
  "extractAirspaceName line =
     (case match True airspaceNameRe line of
        Some mt \<Rightarrow> trim (toStr (grp mt 1)) | None \<Rightarrow> ''Unknown Airspace'')"

text \<open>\<open>/UPPER[:\s]+([^\s]+)/i\<close> and \<open>/LOWER[:\s]+([^\s]+)/i\<close>\<close>

definition limitRe :: "string \<Rightarrow> regex" where
  "limitRe word = seqs [lit word, Plus (In [Lit CHR '':'', Space]), Group 1 (Plus (NotIn [Space]))]"

text \<open>A number \<open>-?\d+\.?\d*\<close>.\<close>

definition numberRe :: regex where
  "numberRe = seqs [Opt (lit ''-''), Plus digit, Opt (lit ''.''), Star digit]"

text \<open>\<open>/(-?\d+\.?\d*)[\<degree>\s]+([NS])\s+(-?\d+\.?\d*)[\<degree>\s]+([EW])/i\<close>\<close>

definition coordinatesRe :: regex where
  "coordinatesRe = seqs [Group 1 numberRe, Plus (In [Lit (CHR 0xB0), Space]),
     Group 2 (One (In [Lit CHR ''N'', Lit CHR ''S''])), Plus space,
     Group 3 numberRe, Plus (In [Lit (CHR 0xB0), Space]),
     Group 4 (One (In [Lit CHR ''E'', Lit CHR ''W'']))]"

definition extractCoordinates :: "string \<Rightarrow> point option" where
  "extractCoordinates line =
     (case match True coordinatesRe line of
        Some mt \<Rightarrow>
          Some \<lparr>latitude = parseCoordinate (Str (toStr (grp mt 1) @ toStr (grp mt 2))),
                longitude = parseCoordinate (Str (toStr (grp mt 3) @ toStr (grp mt 4)))\<rparr>
      | None \<Rightarrow> None)"

text \<open>One turn of the loop over the lines. The state is \<open>parsedData.airspaces\<close> and
  \<open>currentAirspace\<close>.\<close>

definition structuredLine ::
    "textAirspace list \<times> textAirspace option \<Rightarrow> string \<Rightarrow> textAirspace list \<times> textAirspace option" where
  "structuredLine st line =
     (let trimmed = trim line
      in if trimmed = [] then st
         else
           (let st1 =
                  (if match False nameLineRe trimmed \<noteq> None
                   then ((case snd st of Some a \<Rightarrow> fst st @ [a] | None \<Rightarrow> fst st),
                         Some \<lparr>ta_id = extractAirspaceId trimmed, ta_name = extractAirspaceName trimmed,
                               ta_boundaries = [], ta_upperLimit = ''UNL'', ta_lowerLimit = ''GND''\<rparr>)
                   else st)
            in case snd st1 of
                 None \<Rightarrow> st1
               | Some a \<Rightarrow>
                   (let a1 = (case match True (limitRe ''UPPER'') trimmed of
                                Some mt \<Rightarrow> a\<lparr>ta_upperLimit := toStr (grp mt 1)\<rparr> | None \<Rightarrow> a);
                        a2 = (case match True (limitRe ''LOWER'') trimmed of
                                Some mt \<Rightarrow> a1\<lparr>ta_lowerLimit := toStr (grp mt 1)\<rparr> | None \<Rightarrow> a1);
                        a3 = (case extractCoordinates trimmed of
                                Some p \<Rightarrow> a2\<lparr>ta_boundaries := ta_boundaries a2 @ [p]\<rparr> | None \<Rightarrow> a2)
                    in (fst st1, Some a3))))"

definition parseStructuredText :: "string \<Rightarrow> textAirspace list" where
  "parseStructuredText content =
     (let st = foldl structuredLine ([], None) (split isNewline content)
      in case snd st of Some a \<Rightarrow> fst st @ [a] | None \<Rightarrow> fst st)"

text \<open>\<open>/(-?\d+\.?\d*)[\<degree>\s,]+([NSEW]?)\s*(-?\d+\.?\d*)[\<degree>\s,]+([NSEW]?)/gi\<close>\<close>

definition compass :: atom where
  "compass = In [Lit CHR ''N'', Lit CHR ''S'', Lit CHR ''E'', Lit CHR ''W'']"

definition coordPattern :: regex where
  "coordPattern = seqs [Group 1 numberRe, Plus (In [Lit (CHR 0xB0), Space, Lit CHR '','']),
     Group 2 (Opt (One compass)), Star space,
     Group 3 numberRe, Plus (In [Lit (CHR 0xB0), Space, Lit CHR '','']),
     Group 4 (Opt (One compass))]"

definition parseGenericFormat :: "string \<Rightarrow> textAirspace list" where
  "parseGenericFormat content =
     (let boundaries =
            map (\<lambda>mt. \<lparr>latitude = parseCoordinate (Str (toStr (grp mt 1) @ toStr (grp mt 2))),
                       longitude = parseCoordinate (Str (toStr (grp mt 3) @ toStr (grp mt 4)))\<rparr>)
                (matchAll True coordPattern content)
      in if length boundaries > 0
         then [\<lparr>ta_id = ''EXTRACTED_AIRSPACE'', ta_name = ''Extracted from DAH'',
                ta_boundaries = boundaries, ta_upperLimit = ''UNL'', ta_lowerLimit = ''GND''\<rparr>]
         else [])"

section \<open>The parser of PDF text\<close>

text \<open>
  The parser module whose \<open>parseDAHFile\<close> extracts the text of a PDF and hands it to
  \<open>parseAirspaceText\<close>: a scan over the lines with the flags \<open>readingLateralLimits\<close> and
  \<open>readingVerticalLimits\<close>.
\<close>

record pdfAirspace =
  pa_id :: string
  pa_name :: string
  pa_locations :: "string list"
  pa_boundaries :: "point list"
  pa_upperLimit :: string
  pa_lowerLimit :: string
  pa_controllingAuthority :: "string option"
  pa_frequencies :: "jsnum list"
  pa_hoursOfOperation :: "string option"

subsection \<open>Coordinates\<close>

definition dmsToDecimal :: "jsnum \<Rightarrow> jsnum \<Rightarrow> jsnum \<Rightarrow> string \<Rightarrow> jsnum" where
  "dmsToDecimal degrees minutes seconds direction =
     (let decimal = jadd (jadd degrees (jdiv minutes 60)) (jdiv seconds 3600)
      in if direction = ''S'' \<or> direction = ''W'' then jneg decimal else decimal)"

definition substring :: "nat \<Rightarrow> nat \<Rightarrow> string \<Rightarrow> string" where
  "substring a b s = take (b - a) (drop a s)"

text \<open>\<open>None\<close> is the result \<open>null\<close>.\<close>

definition parseDMSCoordinate :: "string \<Rightarrow> string \<Rightarrow> jsnum option" where
  "parseDMSCoordinate dmsStr direction =
     (let str = filter isDigit dmsStr
      in if length str = 7
         then Some (dmsToDecimal (num (parseInt (substring 0 2 str))) (num (parseInt (substring 2 4 str)))
                      (jdiv (num (parseInt (substring 4 7 str))) 10) direction)
         else if length str = 8
         then Some (dmsToDecimal (num (parseInt (substring 0 3 str))) (num (parseInt (substring 3 5 str)))
                      (jdiv (num (parseInt (substring 5 8 str))) 10) direction)
         else None)"

text \<open>\<open>/(\d{7})([NS])?\s+(\d{8})([EW])/g\<close>\<close>

definition pattern1 :: regex where
  "pattern1 = seqs [Group 1 (Times 7 digit), Opt (Group 2 (One (In [Lit CHR ''N'', Lit CHR ''S'']))),
     Plus space, Group 3 (Times 8 digit), Group 4 (One (In [Lit CHR ''E'', Lit CHR ''W'']))]"

text \<open>\<open>/(\d+)\<degree>(\d+)'(\d+)"?([NS])\s+(\d+)\<degree>(\d+)'(\d+)"?([EW])/g\<close>\<close>

definition pattern2 :: regex where
  "pattern2 = seqs [Group 1 (Plus digit), One (Ch (CHR 0xB0)), Group 2 (Plus digit), One (Ch (CHR 0x27)),
     Group 3 (Plus digit), Opt (One (Ch (CHR 0x22))), Group 4 (One (In [Lit CHR ''N'', Lit CHR ''S''])),
     Plus space,
     Group 5 (Plus digit), One (Ch (CHR 0xB0)), Group 6 (Plus digit), One (Ch (CHR 0x27)),
     Group 7 (Plus digit), Opt (One (Ch (CHR 0x22))), Group 8 (One (In [Lit CHR ''E'', Lit CHR ''W'']))]"

text \<open>\<open>/(\d{7})/g\<close>\<close>

definition pattern3 :: regex where
  "pattern3 = Group 1 (Times 7 digit)"

text \<open>The pairs \<open>(coords[i], coords[i + 1])\<close> for \<open>i = 0, 2, 4, \<dots>\<close> while
  \<open>i < coords.length - 1\<close>.\<close>

fun pairs :: "'a list \<Rightarrow> ('a \<times> 'a) list" where
  "pairs (a # b # rest) = (a, b) # pairs rest"
| "pairs rest = []"

definition mkPoint :: "jsnum option \<Rightarrow> jsnum option \<Rightarrow> point option" where
  "mkPoint lat lon =
     (case lat of None \<Rightarrow> None
      | Some la \<Rightarrow> (case lon of None \<Rightarrow> None | Some lo \<Rightarrow> Some \<lparr>latitude = la, longitude = lo\<rparr>))"

text \<open>\<open>extractCoordinatesFromLine\<close> appends to \<open>airspace.boundaries\<close>; the model returns
  the airspace with the longer list.\<close>

definition extractCoordinatesFromLine :: "string \<Rightarrow> pdfAirspace \<Rightarrow> pdfAirspace" where
  "extractCoordinatesFromLine line airspace =
     (let matches1 = matchAll False pattern1 line
      in if length matches1 > 0
         then airspace\<lparr>pa_boundaries := pa_boundaries airspace @
                List.map_filter
                  (\<lambda>mt. mkPoint (parseDMSCoordinate (toStr (grp mt 1)) (orElse (grp mt 2) ''S''))
                                 (parseDMSCoordinate (toStr (grp mt 3)) (toStr (grp mt 4))))
                  matches1\<rparr>
         else
           (let matches2 = matchAll False pattern2 line
            in if length matches2 > 0
               then airspace\<lparr>pa_boundaries := pa_boundaries airspace @
                      map (\<lambda>mt. \<lparr>latitude = dmsToDecimal (num (parseInt (toStr (grp mt 1))))
                                               (num (parseInt (toStr (grp mt 2))))
                                               (num (parseInt (toStr (grp mt 3)))) (toStr (grp mt 4)),
                                 longitude = dmsToDecimal (num (parseInt (toStr (grp mt 5))))
                                               (num (parseInt (toStr (grp mt 6))))
                                               (num (parseInt (toStr (grp mt 7)))) (toStr (grp mt 8))\<rparr>)
                          matches2\<rparr>
               else
                 (let coords = matchAll False pattern3 line
                  in if length coords \<ge> 2
                     then airspace\<lparr>pa_boundaries := pa_boundaries airspace @
                            List.map_filter
                              (\<lambda>(a, b). mkPoint (parseDMSCoordinate (toStr (grp a 1)) ''S'')
                                                 (parseDMSCoordinate (toStr (grp b 1)) ''E''))
                              (pairs coords)\<rparr>
                     else airspace)))"

subsection \<open>Vertical limits\<close>

definition flRe :: regex where
  "flRe = seqs [lit ''FL'', Plus digit]"

text \<open>\<open>/(SFC|GND|FL\d+|\d+)\s*-\s*(UNL|FL\d+|\d+)/i\<close>\<close>

definition rangeRe :: regex where
  "rangeRe = seqs [Group 1 (alts [lit ''SFC'', lit ''GND'', flRe, Plus digit]), Star space, lit ''-'',
     Star space, Group 2 (alts [lit ''UNL'', flRe, Plus digit])]"

text \<open>\<open>/^(FL\d+|UNL|SFC|GND)/i\<close> and \<open>/^(SFC|GND)/i\<close>\<close>

definition singleLimitRe :: regex where
  "singleLimitRe = seqs [Bol, Group 1 (alts [flRe, lit ''UNL'', lit ''SFC'', lit ''GND''])]"

definition groundRe :: regex where
  "groundRe = seqs [Bol, Group 1 (alts [lit ''SFC'', lit ''GND''])]"

definition extractVerticalLimits :: "string \<Rightarrow> pdfAirspace \<Rightarrow> pdfAirspace" where
  "extractVerticalLimits text airspace =
     (case match True rangeRe text of
        Some rangeMatch \<Rightarrow>
          airspace\<lparr>pa_lowerLimit := toStr (grp rangeMatch 1), pa_upperLimit := toStr (grp rangeMatch 2)\<rparr>
      | None \<Rightarrow>
          if match True singleLimitRe text \<noteq> None
          then (if match True groundRe text \<noteq> None then airspace\<lparr>pa_lowerLimit := text\<rparr>
                else airspace\<lparr>pa_upperLimit := text\<rparr>)
          else airspace)"

subsection \<open>\<open>parseAirspaceText\<close>\<close>

text \<open>\<open>/^([A-Z]{4}(?:-[A-Z]{4})?(?:\/[A-Z]{4})?)\/(.+?)(?:\s+CTA|CTR|TMA|CLASS)?\s*([A-Z]?\d+)?$/\<close>\<close>

definition titleRe :: regex where
  "titleRe = seqs [Bol,
     Group 1 (seqs [Times 4 AZ, Opt (seqs [lit ''-'', Times 4 AZ]), Opt (seqs [lit ''/'', Times 4 AZ])]),
     lit ''/'', Group 2 (PlusLazy Dot),
     Opt (alts [seqs [Plus space, lit ''CTA''], lit ''CTR'', lit ''TMA'', lit ''CLASS'']),
     Star space, Opt (Group 3 (seqs [Opt (One AZ), Plus digit])), Eol]"

text \<open>The section markers, each as the test (\<open>/^LATERAL\s+LIMITS:/i\<close>) and as the prefix
  that \<open>replace\<close> cuts off (\<open>/^LATERAL\s+LIMITS:\s*/i\<close>).\<close>

definition lateralRe :: regex where
  "lateralRe = seqs [Bol, lit ''LATERAL'', Plus space, lit ''LIMITS:'']"

definition verticalRe :: regex where
  "verticalRe = seqs [Bol, lit ''VERTICAL'', Plus space, lit ''LIMITS:'']"

definition hoursRe :: regex where
  "hoursRe = seqs [Bol, lit ''HOUR'', Opt (lit ''S''), Plus space, lit ''OF'', Plus space, lit ''ACTIVATION:'']"

definition authorityRe :: regex where
  "authorityRe = seqs [Bol, lit ''CONTROLLING'', Plus space, lit ''AUTHORITY:'']"

definition afterMarker :: "regex \<Rightarrow> string \<Rightarrow> string" where
  "afterMarker marker line = trim (removeFirst True (Seq marker (Star space)) line)"

definition isLocationSep :: "char \<Rightarrow> bool" where
  "isLocationSep c = (c = CHR ''-'' \<or> c = CHR ''/'')"

definition newAirspace :: "rmatch \<Rightarrow> pdfAirspace" where
  "newAirspace titleMatch =
     (let locations = filter (\<lambda>l. length l = 4) (split isLocationSep (toStr (grp titleMatch 1)));
          name = trim (toStr (grp titleMatch 2));
          suffix = orElse (grp titleMatch 3) ''''
      in \<lparr>pa_id = trim (toStr (grp titleMatch 1) @ ''/'' @ name @ '' '' @ suffix),
          pa_name = trim (name @ '' '' @ suffix),
          pa_locations = locations,
          pa_boundaries = [],
          pa_upperLimit = ''UNL'',
          pa_lowerLimit = ''GND'',
          pa_controllingAuthority = None,
          pa_frequencies = [],
          pa_hoursOfOperation = None\<rparr>)"

record scan =
  airspaces :: "pdfAirspace list"
  currentAirspace :: "pdfAirspace option"
  readingLateralLimits :: bool
  readingVerticalLimits :: bool

text \<open>\<open>if (currentAirspace && currentAirspace.boundaries.length > 0) airspaces.push(currentAirspace)\<close>\<close>

definition save :: "scan \<Rightarrow> pdfAirspace list" where
  "save st =
     (case currentAirspace st of
        Some a \<Rightarrow> if length (pa_boundaries a) > 0 then airspaces st @ [a] else airspaces st
      | None \<Rightarrow> airspaces st)"

definition scanLine :: "scan \<Rightarrow> string \<Rightarrow> scan" where
  "scanLine st line =
     (if line = [] then st
      else
        (case match False titleRe line of
           Some titleMatch \<Rightarrow>
             \<lparr>airspaces = save st, currentAirspace = Some (newAirspace titleMatch),
              readingLateralLimits = False, readingVerticalLimits = False\<rparr>
         | None \<Rightarrow>
             (case currentAirspace st of
                None \<Rightarrow> st
              | Some a \<Rightarrow>
                  if match True lateralRe line \<noteq> None
                  then (let coordsOnSameLine = afterMarker lateralRe line
                        in st\<lparr>currentAirspace :=
                                 Some (if coordsOnSameLine \<noteq> [] then extractCoordinatesFromLine coordsOnSameLine a
                                       else a),
                               readingLateralLimits := True, readingVerticalLimits := False\<rparr>)
                  else if match True verticalRe line \<noteq> None
                  then st\<lparr>currentAirspace := Some (extractVerticalLimits (afterMarker verticalRe line) a),
                          readingLateralLimits := False, readingVerticalLimits := True\<rparr>
                  else if match True hoursRe line \<noteq> None
                  then st\<lparr>currentAirspace := Some (a\<lparr>pa_hoursOfOperation := Some (afterMarker hoursRe line)\<rparr>),
                          readingLateralLimits := False, readingVerticalLimits := False\<rparr>
                  else if match True authorityRe line \<noteq> None
                  then st\<lparr>currentAirspace :=
                             Some (a\<lparr>pa_controllingAuthority := Some (afterMarker authorityRe line)\<rparr>),
                          readingLateralLimits := False, readingVerticalLimits := False\<rparr>
                  else
                    (let a1 = (if readingLateralLimits st then extractCoordinatesFromLine line a else a);
                         a2 = (if readingVerticalLimits st then extractVerticalLimits line a1 else a1)
                     in st\<lparr>currentAirspace := Some a2\<rparr>))))"

definition parseAirspaceText :: "string \<Rightarrow> pdfAirspace list" where
  "parseAirspaceText text =
     save (foldl scanLine
             \<lparr>airspaces = [], currentAirspace = None,
              readingLateralLimits = False, readingVerticalLimits = False\<rparr>
             (map trim (split isNewline text)))"

section \<open>The VATGlasses converter\<close>

text \<open>
  The converter module that exports \<open>convertToVATGlasses\<close> and \<open>validateVATGlassesData\<close>.
  Its functions read properties of whatever object they are given. The model has one record
  for an airspace object with every property that \<open>convertAirspace\<close> reads or writes, each
  optional (\<open>None\<close> is \<open>undefined\<close> or another falsy value that is not a string), so that
  the function applies to a parsed airspace and to its own result alike. Where a step of
  \<open>convertAirspace\<close> throws on a value of the wrong type, the model has that value:
  \<^item> \<open>type\<close> is a string or some other truthy value, on which \<open>toUpperCase\<close> is not a
    function;
  \<^item> \<open>boundaries\<close> is an array, whose elements are objects or \<open>null\<close>, or some other truthy
    value, given with its \<open>length\<close> when that is a number; with a positive length \<open>map\<close>
    is not a function of it;
  \<^item> a limit is a string, as every parser of the repository produces, or an altitude
    object; a coordinate is a number or a string; \<open>id\<close>, \<open>name\<close>, \<open>class\<close> and \<open>frequency\<close>
    are strings.
\<close>

record altitude =
  alt_value :: jsnum
  alt_unit :: string
  alt_reference :: string

datatype altIn = AltStr string | AltObj altitude

datatype typeVal = TypeStr string | TypeOther

datatype condition = CondBool bool | CondStr string

record boundaryObj =
  b_latitude :: "jsarg option"
  b_longitude :: "jsarg option"
  b_lat :: "jsnum option"
  b_lon :: "jsnum option"

datatype boundariesVal = BArray "boundaryObj option list" | BOther "int option"

record airspaceObj =
  o_id :: "string option"
  o_name :: "string option"
  o_type :: "typeVal option"
  o_upperLimit :: "altIn option"
  o_lowerLimit :: "altIn option"
  o_ceiling :: "altitude option"
  o_floor :: "altitude option"
  o_boundaries :: "boundariesVal option"
  o_conditional :: "condition option"
  o_class :: "string option"
  o_frequency :: "string option"

subsection \<open>Helper functions\<close>

text \<open>No key of \<open>typeMap\<close> that \<open>normalizeAirspaceType\<close> looks up is inherited from
  \<open>Object.prototype\<close>: the key is in upper case, the inherited names are not.\<close>

definition typeMap :: "(string \<times> string) list" where
  "typeMap =
     [(''CLASS A'', ''A''), (''CLASS B'', ''B''), (''CLASS C'', ''C''), (''CLASS D'', ''D''),
      (''CLASS E'', ''E''), (''CLASS F'', ''F''), (''CLASS G'', ''G''),
      (''CONTROL ZONE'', ''CTR''), (''CTR'', ''CTR''), (''CONTROL AREA'', ''CTA''), (''CTA'', ''CTA''),
      (''TERMINAL CONTROL AREA'', ''TMA''), (''TMA'', ''TMA''), (''RESTRICTED'', ''R''),
      (''PROHIBITED'', ''P''), (''DANGER'', ''D''), (''MILITARY'', ''M'')]"

definition normalizeAirspaceType :: "typeVal option \<Rightarrow> error + string" where
  "normalizeAirspaceType type =
     (case type of
        None \<Rightarrow> Inr ''OTHER''
      | Some TypeOther \<Rightarrow> Inl TypeError
      | Some (TypeStr t) \<Rightarrow>
          if t = [] then Inr ''OTHER''
          else (let upperType = trim (toUpperCase t)
                in Inr (orElse (map_of typeMap upperType) upperType)))"

text \<open>\<open>/F?L?(\d+)/\<close>\<close>

definition flMatchRe :: regex where
  "flMatchRe = seqs [Opt (lit ''F''), Opt (lit ''L''), Group 1 (Plus digit)]"

text \<open>\<open>/(\d+)\s*(FT|'|FEET|AMSL|AGL)?/\<close>\<close>

definition ftMatchRe :: regex where
  "ftMatchRe = seqs [Group 1 (Plus digit), Star space,
     Opt (Group 2 (alts [lit ''FT'', One (Ch (CHR 0x27)), lit ''FEET'', lit ''AMSL'', lit ''AGL'']))]"

definition greaterThan :: "int option \<Rightarrow> int \<Rightarrow> bool" where
  "greaterThan x n = (case x of None \<Rightarrow> False | Some v \<Rightarrow> v > n)"

text \<open>\<open>flMatch && parseInt(flMatch[1]) > 180\<close>, with the number when it holds.\<close>

definition flightLevel :: "string \<Rightarrow> jsnum option" where
  "flightLevel altStr =
     (case match False flMatchRe altStr of
        Some flMatch \<Rightarrow>
          if greaterThan (parseInt (toStr (grp flMatch 1))) 180
          then Some (num (parseInt (toStr (grp flMatch 1)))) else None
      | None \<Rightarrow> None)"

fun normalizeAltitude :: "altIn \<Rightarrow> altitude" where
  "normalizeAltitude (AltObj altitude) = altitude"
| "normalizeAltitude (AltStr altitude) =
     (let altStr = trim (toUpperCase altitude)
      in if altStr = ''UNL'' \<or> altStr = ''UNLIMITED''
         then \<lparr>alt_value = Fin 999, alt_unit = ''FL'', alt_reference = ''STD''\<rparr>
         else if altStr = ''GND'' \<or> altStr = ''GROUND'' \<or> altStr = ''SFC''
         then \<lparr>alt_value = Fin 0, alt_unit = ''FT'', alt_reference = ''AGL''\<rparr>
         else
           (case flightLevel altStr of
              Some level \<Rightarrow> \<lparr>alt_value = level, alt_unit = ''FL'', alt_reference = ''STD''\<rparr>
            | None \<Rightarrow>
                (case match False ftMatchRe altStr of
                   Some ftMatch \<Rightarrow>
                     (let isAGL = (includesStr altStr ''AGL'' \<or> includesStr altStr ''ABOVE GROUND'')
                      in \<lparr>alt_value = num (parseInt (toStr (grp ftMatch 1))), alt_unit = ''FT'',
                          alt_reference = (if isAGL then ''AGL'' else ''AMSL'')\<rparr>)
                 | None \<Rightarrow> \<lparr>alt_value = Fin 0, alt_unit = ''FT'', alt_reference = ''AMSL''\<rparr>)))"

text \<open>\<open>parseFloat(undefined)\<close> is NaN.\<close>

definition normalizeCoordinate :: "jsarg option \<Rightarrow> jsnum" where
  "normalizeCoordinate coord =
     (case coord of
        Some (Num n) \<Rightarrow> toFixed6 n
      | Some (Str s) \<Rightarrow> (let n = parseFloat s in if n \<noteq> NaN then toFixed6 n else Fin 0)
      | None \<Rightarrow> (let n = parseFloat ''undefined'' in if n \<noteq> NaN then toFixed6 n else Fin 0))"

text \<open>\<open>generateId\<close> reads the clock and the random generator: \<open>timestamp\<close> is
  \<open>Date.now().toString(36)\<close> and \<open>random\<close> is \<open>Math.random().toString(36).substring(2, 7)\<close>
  at the time of the call.\<close>

record env =
  timestamp :: string
  random :: string

definition generateId :: "env \<Rightarrow> string \<Rightarrow> string" where
  "generateId e prefix = toUpperCase (prefix @ ''_'' @ timestamp e @ ''_'' @ random e)"

subsection \<open>\<open>convertAirspace\<close>\<close>

definition isSet :: "altIn option \<Rightarrow> bool" where
  "isSet x = (case x of None \<Rightarrow> False | Some (AltStr s) \<Rightarrow> s \<noteq> [] | Some (AltObj a) \<Rightarrow> True)"

definition convertBoundary :: "boundaryObj \<Rightarrow> boundaryObj" where
  "convertBoundary boundary =
     \<lparr>b_latitude = None, b_longitude = None,
      b_lat = Some (normalizeCoordinate (b_latitude boundary)),
      b_lon = Some (normalizeCoordinate (b_longitude boundary))\<rparr>"

text \<open>\<open>airspace.boundaries.map(boundary => ...)\<close>: reading \<open>boundary.latitude\<close> of \<open>null\<close>
  throws.\<close>

fun convertBoundaries :: "boundaryObj option list \<Rightarrow> error + boundaryObj option list" where
  "convertBoundaries [] = Inr []"
| "convertBoundaries (None # bs) = Inl TypeError"
| "convertBoundaries (Some b # bs) =
     (case convertBoundaries bs of Inl e \<Rightarrow> Inl e | Inr cs \<Rightarrow> Inr (Some (convertBoundary b) # cs))"

text \<open>\<open>if (airspace.boundaries && airspace.boundaries.length > 0)
  vatAirspace.boundaries = airspace.boundaries.map(...)\<close>, from the initial value \<open>[]\<close>.\<close>

definition newBoundaries :: "boundariesVal option \<Rightarrow> error + boundaryObj option list" where
  "newBoundaries bv =
     (case bv of
        None \<Rightarrow> Inr []
      | Some (BArray bs) \<Rightarrow> if length bs > 0 then convertBoundaries bs else Inr []
      | Some (BOther len) \<Rightarrow> if greaterThan len 0 then Inl TypeError else Inr [])"

definition convertAirspace :: "env \<Rightarrow> airspaceObj \<Rightarrow> error + airspaceObj" where
  "convertAirspace e airspace =
     (case normalizeAirspaceType (o_type airspace) of
        Inl err \<Rightarrow> Inl err
      | Inr type \<Rightarrow>
          (case newBoundaries (o_boundaries airspace) of
             Inl err \<Rightarrow> Inl err
           | Inr boundaries \<Rightarrow>
               Inr \<lparr>o_id = Some (orElse (o_id airspace) (generateId e ''AIRSPACE'')),
                    o_name = Some (orElse (o_name airspace) ''Unknown Airspace''),
                    o_type = Some (TypeStr type),
                    o_upperLimit = None,
                    o_lowerLimit = None,
                    o_ceiling = (if isSet (o_upperLimit airspace)
                                 then map_option normalizeAltitude (o_upperLimit airspace) else None),
                    o_floor = (if isSet (o_lowerLimit airspace)
                               then map_option normalizeAltitude (o_lowerLimit airspace) else None),
                    o_boundaries = Some (BArray boundaries),
                    o_conditional = o_conditional airspace,
                    o_class = (if truthy (o_class airspace) then o_class airspace else None),
                    o_frequency = (if truthy (o_frequency airspace) then o_frequency airspace else None)\<rparr>))"

subsection \<open>\<open>validateVATGlassesData\<close>\<close>

text \<open>A top-level property of the data is missing (or falsy), an array, or some other
  truthy value. Of a position and an airport the validator reads two properties each.\<close>

datatype 'a field = Missing | NotArray | Array "'a list"

record positionObj =
  p_callsign :: "string option"
  p_frequency :: "string option"

record airportObj =
  ap_icao :: "string option"
  ap_coordinates :: "(jsnum \<times> jsnum) option"

record vatData =
  d_airspace :: "airspaceObj field"
  d_positions :: "positionObj field"
  d_airports :: "airportObj field"

record validation =
  valid :: bool
  errors :: "string list"
  warnings :: "string list"

definition airspaceWarnings :: "nat \<times> airspaceObj \<Rightarrow> string list" where
  "airspaceWarnings ia =
     (case ia of (idx, airspace) \<Rightarrow>
        (if \<not> truthy (o_id airspace) then [''Airspace at index '' @ decimal idx @ '' missing id''] else [])
        @ (if \<not> truthy (o_name airspace) then [''Airspace at index '' @ decimal idx @ '' missing name''] else [])
        @ (if o_boundaries airspace = None \<or> o_boundaries airspace = Some (BArray []) \<or>
              o_boundaries airspace = Some (BOther (Some 0))
           then [''Airspace '' @ orElse (o_id airspace) (decimal idx) @ '' has no boundaries''] else []))"

definition positionWarnings :: "nat \<times> positionObj \<Rightarrow> string list" where
  "positionWarnings ip =
     (case ip of (idx, position) \<Rightarrow>
        (if \<not> truthy (p_callsign position)
         then [''Position at index '' @ decimal idx @ '' missing callsign''] else [])
        @ (if \<not> truthy (p_frequency position)
           then [''Position at index '' @ decimal idx @ '' missing frequency''] else []))"

definition airportWarnings :: "nat \<times> airportObj \<Rightarrow> string list" where
  "airportWarnings ia =
     (case ia of (idx, airport) \<Rightarrow>
        (if \<not> truthy (ap_icao airport)
         then [''Airport at index '' @ decimal idx @ '' missing ICAO code''] else [])
        @ (if ap_coordinates airport = None
           then [''Airport at index '' @ decimal idx @ '' missing coordinates''] else []))"

definition fieldErrors :: "string \<Rightarrow> 'a field \<Rightarrow> string list" where
  "fieldErrors name f = (case f of NotArray \<Rightarrow> [name @ '' must be an array''] | _ \<Rightarrow> [])"

definition fieldWarnings :: "(nat \<times> 'a \<Rightarrow> string list) \<Rightarrow> 'a field \<Rightarrow> string list" where
  "fieldWarnings w f = (case f of Array xs \<Rightarrow> concat (map w (enumerate 0 xs)) | _ \<Rightarrow> [])"

definition validateVATGlassesData :: "vatData \<Rightarrow> validation" where
  "validateVATGlassesData data =
     (let errors =
            (if d_airspace data = Missing \<and> d_positions data = Missing \<and> d_airports data = Missing
             then [''Data must contain at least one of: airspace, positions, or airports''] else [])
            @ fieldErrors ''airspace'' (d_airspace data)
            @ fieldErrors ''positions'' (d_positions data)
            @ fieldErrors ''airports'' (d_airports data);
          warnings =
            fieldWarnings airspaceWarnings (d_airspace data)
            @ fieldWarnings positionWarnings (d_positions data)
            @ fieldWarnings airportWarnings (d_airports data)
      in \<lparr>valid = (length errors = 0), errors = errors, warnings = warnings\<rparr>)"

section \<open>Properties\<close>

subsection \<open>Altitude normalisation on the sample inputs\<close>

text \<open>
  Claim C1 states that \<open>normalizeAltitude\<close> maps \<open>UNL\<close> to \<open>{999, FL, STD}\<close>, \<open>GND\<close> to
  \<open>{0, FT, AGL}\<close>, \<open>FL245\<close> to \<open>{245, FL, STD}\<close>, \<open>5000FT\<close> to \<open>{5000, FT, AMSL}\<close> and
  \<open>5000 AGL\<close> to \<open>{5000, FT, AGL}\<close>. The function gives the first three values. For
  \<open>5000FT\<close> and \<open>5000 AGL\<close> the expression \<open>/F?L?(\d+)/\<close> of the flight-level branch matches
  the bare digits, 5000 exceeds 180, and the result is \<open>{5000, FL, STD}\<close>: the branch
  commented \<open>Parse feet (e.g., "5000FT", "5000'", "5000 AMSL")\<close> is not reached.
\<close>

theorem normalizeAltitude_samples:
  "normalizeAltitude (AltStr ''UNL'') = \<lparr>alt_value = Fin 999, alt_unit = ''FL'', alt_reference = ''STD''\<rparr>
   \<and> normalizeAltitude (AltStr ''GND'') = \<lparr>alt_value = Fin 0, alt_unit = ''FT'', alt_reference = ''AGL''\<rparr>
   \<and> normalizeAltitude (AltStr ''FL245'') = \<lparr>alt_value = Fin 245, alt_unit = ''FL'', alt_reference = ''STD''\<rparr>
   \<and> normalizeAltitude (AltStr ''5000FT'') = \<lparr>alt_value = Fin 5000, alt_unit = ''FL'', alt_reference = ''STD''\<rparr>
   \<and> normalizeAltitude (AltStr ''5000 AGL'') = \<lparr>alt_value = Fin 5000, alt_unit = ''FL'', alt_reference = ''STD''\<rparr>"
  by code_simp

text \<open>A number of at most 180 does reach the feet branch.\<close>

lemma normalizeAltitude_feet:
  "normalizeAltitude (AltStr ''150FT'') = \<lparr>alt_value = Fin 150, alt_unit = ''FT'', alt_reference = ''AMSL''\<rparr>
   \<and> normalizeAltitude (AltStr ''150 AGL'') = \<lparr>alt_value = Fin 150, alt_unit = ''FT'', alt_reference = ''AGL''\<rparr>"
  by code_simp

subsection \<open>Coordinates in degrees, minutes and seconds\<close>

text \<open>
  Claim C2 states that for a token in degrees-minutes-seconds form with a trailing hemisphere
  letter \<open>parseCoordinate\<close> returns degrees + minutes/60 + seconds/3600, negated for S and
  W. On the example of the source's own comment, \<open>33\<degree>52'12"S\<close>, the function returns 33:
  \<open>parseFloat\<close> reads the leading digits, the result is not NaN and is returned before the
  expression for degrees, minutes and seconds is tried.
\<close>

theorem parseCoordinate_dms_sample:
  "parseCoordinate (Str (''33'' @ [CHR 0xB0] @ ''52'' @ [CHR 0x27] @ ''12'' @ [CHR 0x22] @ ''S'')) = Fin 33
   \<and> parseCoordinate (Str (''33'' @ [CHR 0xB0] @ ''52'' @ [CHR 0x27] @ ''12'' @ [CHR 0x22] @ ''S''))
       \<noteq> Fin (- (33 + 52 / 60 + 12 / 3600))"
  by code_simp

text \<open>The conversion is reached only when the text does not begin with a number.\<close>

lemma parseCoordinate_dms_reached:
  "parseCoordinate (Str (''S 33'' @ [CHR 0xB0] @ ''52'' @ [CHR 0x27] @ ''12'' @ [CHR 0x22] @ ''S''))
     = Fin (- (33 + 52 / 60 + 12 / 3600))"
  by code_simp

subsection \<open>The format detector on the sample inputs\<close>

text \<open>
  Claim C3 states that the detector returns CSV for \<open>id,name\<close> / \<open>A1,Foo\<close>, STRUCTURED_TEXT
  for an input containing \<open>VERTICAL LIMITS: FL100 - FL200\<close> and no CSV header, JSON for
  \<open>[1,2,3]\<close> and GENERIC for \<open>hello world\<close>. The detector looks for the four literals
  \<open>AIRSPACE\<close>, \<open>Airspace\<close>, \<open>UPPER LIMIT\<close> and \<open>LOWER LIMIT\<close>; the line
  \<open>VERTICAL LIMITS: FL100 - FL200\<close> contains none of them and is GENERIC.
\<close>

theorem detectFileFormat_vertical_limits_counterexample:
  "detectFileFormat ''VERTICAL LIMITS: FL100 - FL200'' \<noteq> Structured_text"
  by code_simp

text \<open>
  Claim C3 as amended: the detector returns CSV, JSON and GENERIC for the three other
  samples. A text that is not JSON (it does not begin with a brace or a bracket after
  trimming, or \<open>JSON.parse\<close> rejects it) and has no CSV header is STRUCTURED_TEXT exactly
  when it contains one of the four literals, and GENERIC otherwise, whether or not it
  contains \<open>VERTICAL LIMITS: FL100 - FL200\<close>: that line alone is GENERIC, and after a line
  \<open>AIRSPACE\<close> it is STRUCTURED_TEXT.
\<close>

theorem detectFileFormat_samples:
  "detectFileFormat ''id,name\<newline>A1,Foo'' = Csv
   \<and> detectFileFormat ''[1,2,3]'' = Json
   \<and> detectFileFormat ''hello world'' = Generic
   \<and> detectFileFormat ''VERTICAL LIMITS: FL100 - FL200'' = Generic
   \<and> detectFileFormat ''AIRSPACE\<newline>VERTICAL LIMITS: FL100 - FL200'' = Structured_text
   \<and> (\<not> ((startsWith (trim content) ''{'' \<or> startsWith (trim content) ''['') \<and> jsonValid content)
        \<and> \<not> csvHeader content \<longrightarrow>
      detectFileFormat content =
        (if includesStr content ''AIRSPACE'' \<or> includesStr content ''Airspace'' \<or>
            includesStr content ''UPPER LIMIT'' \<or> includesStr content ''LOWER LIMIT''
         then Structured_text else Generic))"
proof -
  have "detectFileFormat ''id,name\<newline>A1,Foo'' = Csv
   \<and> detectFileFormat ''[1,2,3]'' = Json
   \<and> detectFileFormat ''hello world'' = Generic
   \<and> detectFileFormat ''VERTICAL LIMITS: FL100 - FL200'' = Generic
   \<and> detectFileFormat ''AIRSPACE\<newline>VERTICAL LIMITS: FL100 - FL200'' = Structured_text"
    by code_simp
  moreover have "\<not> ((startsWith (trim content) ''{'' \<or> startsWith (trim content) ''['') \<and> jsonValid content)
        \<and> \<not> csvHeader content \<longrightarrow>
      detectFileFormat content =
        (if includesStr content ''AIRSPACE'' \<or> includesStr content ''Airspace'' \<or>
            includesStr content ''UPPER LIMIT'' \<or> includesStr content ''LOWER LIMIT''
         then Structured_text else Generic)"
    by (auto simp: detectFileFormat_def)
  ultimately show ?thesis
    by blast
qed

theorem detectFileFormat_samples_witness:
  "\<not> jsonValid ''VERTICAL LIMITS: FL100 - FL200\<newline>UPPER LIMIT: FL200''
   \<and> \<not> csvHeader ''VERTICAL LIMITS: FL100 - FL200\<newline>UPPER LIMIT: FL200''
   \<and> includesStr ''VERTICAL LIMITS: FL100 - FL200\<newline>UPPER LIMIT: FL200'' ''UPPER LIMIT''
   \<and> detectFileFormat ''VERTICAL LIMITS: FL100 - FL200\<newline>UPPER LIMIT: FL200'' = Structured_text"
proof -
  have h: "\<not> jsonValid ''VERTICAL LIMITS: FL100 - FL200\<newline>UPPER LIMIT: FL200''
   \<and> \<not> csvHeader ''VERTICAL LIMITS: FL100 - FL200\<newline>UPPER LIMIT: FL200''
   \<and> includesStr ''VERTICAL LIMITS: FL100 - FL200\<newline>UPPER LIMIT: FL200'' ''UPPER LIMIT''"
    by code_simp
  with detectFileFormat_samples [of "''VERTICAL LIMITS: FL100 - FL200\<newline>UPPER LIMIT: FL200''"]
  show ?thesis
    by simp
qed

subsection \<open>The title block of the PDF text\<close>

lemma sample_block:
  "parseAirspaceText
     ''YBBB/BRISBANE CTA A1\<newline>LATERAL LIMITS: 3322225 14822227E\<newline>VERTICAL LIMITS: FL180 - FL245''
   = [\<lparr>pa_id = ''YBBB/BRISBANE A1'', pa_name = ''BRISBANE A1'', pa_locations = [''YBBB''],
       pa_boundaries = [\<lparr>latitude = Fin (- (33 + 22 / 60 + 22.5 / 3600)),
                         longitude = Fin (148 + 22 / 60 + 22.7 / 3600)\<rparr>],
       pa_upperLimit = ''FL245'', pa_lowerLimit = ''FL180'', pa_controllingAuthority = None,
       pa_frequencies = [], pa_hoursOfOperation = None\<rparr>]"
  by code_simp

text \<open>
  Claim C5: the text of the title line \<open>YBBB/BRISBANE CTA A1\<close>, the line
  \<open>LATERAL LIMITS: 3322225 14822227E\<close> and the line \<open>VERTICAL LIMITS: FL180 - FL245\<close>
  yields exactly one airspace, with locations \<open>[YBBB]\<close>, one boundary at latitude
  \<open>-(33 + 22/60 + 22.5/3600)\<close> and longitude \<open>148 + 22/60 + 22.7/3600\<close>, which lie within
  0.001 of -33.373 and 148.373, lower limit \<open>FL180\<close> and upper limit \<open>FL245\<close>.
\<close>

theorem parseAirspaceText_sample:
  "map pa_locations (parseAirspaceText
      ''YBBB/BRISBANE CTA A1\<newline>LATERAL LIMITS: 3322225 14822227E\<newline>VERTICAL LIMITS: FL180 - FL245'')
     = [[''YBBB'']]
   \<and> map pa_boundaries (parseAirspaceText
      ''YBBB/BRISBANE CTA A1\<newline>LATERAL LIMITS: 3322225 14822227E\<newline>VERTICAL LIMITS: FL180 - FL245'')
     = [[\<lparr>latitude = Fin (- (33 + 22 / 60 + 22.5 / 3600)),
          longitude = Fin (148 + 22 / 60 + 22.7 / 3600)\<rparr>]]
   \<and> map pa_lowerLimit (parseAirspaceText
      ''YBBB/BRISBANE CTA A1\<newline>LATERAL LIMITS: 3322225 14822227E\<newline>VERTICAL LIMITS: FL180 - FL245'')
     = [''FL180'']
   \<and> map pa_upperLimit (parseAirspaceText
      ''YBBB/BRISBANE CTA A1\<newline>LATERAL LIMITS: 3322225 14822227E\<newline>VERTICAL LIMITS: FL180 - FL245'')
     = [''FL245'']
   \<and> \<bar>- (33 + 22 / 60 + 22.5 / 3600) - (- 33.373 :: rat)\<bar> < 0.001
   \<and> \<bar>(148 + 22 / 60 + 22.7 / 3600) - (148.373 :: rat)\<bar> < 0.001"
  by (simp add: sample_block)

subsection \<open>Classified as CSV, rejected by the CSV parser\<close>

text \<open>
  Claim C10: there is an input that the detector classifies as CSV and on which the CSV
  parser throws its error. The header line \<open>id,name\<close> followed by two empty lines is one:
  the detector counts every line, the parser only the lines that are not blank.
\<close>

theorem csv_detected_but_rejected:
  "detectFileFormat ''id,name\<newline>\<newline>'' = Csv
   \<and> parseCSVFormat ''id,name\<newline>\<newline>'' = Inl CsvError"
  by code_simp

subsection \<open>\<open>parseCoordinate\<close> returns a number\<close>





lemma digit_not_space: "isDigit c \<Longrightarrow> \<not> isSpace c"
  by (auto simp: isDigit_def isSpace_def)

lemma digit_not_sign:
  "isDigit c \<Longrightarrow>
     c \<noteq> CHR ''-'' \<and> c \<noteq> CHR ''+'' \<and> c \<noteq> CHR ''x'' \<and> c \<noteq> CHR ''X'' \<and> c \<noteq> CHR ''I''"
  by (auto simp: isDigit_def cu_def)


lemma parseFloat_digit:
  assumes "isDigit c"
  shows "\<exists>q. parseFloat (c # t) = Fin q"
proof -
  have trim: "trimStart (c # t) = c # t"
    using assms by (simp add: trimStart_def digit_not_space)
  have nosign: "\<not> startsWith (c # t) ''-'' \<and> \<not> startsWith (c # t) ''+'' \<and> \<not> startsWith (c # t) ''Infinity''"
    using assms digit_not_sign by auto
  have "takeWhile isDigit (c # t) \<noteq> []"
    using assms by simp
  with trim nosign show ?thesis
    by (simp add: parseFloat_def Let_def)
qed

text \<open>A text that begins with a digit is read by \<open>parseFloat\<close>: \<open>parseCoordinate\<close>
  returns that number and does not try the expression for degrees, minutes and seconds.\<close>

lemma trim_leading_digit:
  assumes "isDigit c"
  shows "\<exists>t'. trim (c # t) = c # t'"
proof -
  have "dropWhile isSpace (rev t @ [c]) = dropWhile isSpace (rev t) @ [c]"
    using assms by (induction "rev t" arbitrary: t) (auto simp: digit_not_space dropWhile_append)
  then have "trim (c # t) = c # rev (dropWhile isSpace (rev t))"
    using assms by (simp add: trim_def digit_not_space)
  then show ?thesis
    by blast
qed

lemma parseCoordinate_leading_digit:
  assumes "isDigit c"
  shows "parseCoordinate (Str (c # t)) = parseFloat (trim (c # t)) \<and> parseFloat (trim (c # t)) \<noteq> NaN"
proof -
  from trim_leading_digit [OF assms] obtain t' where "trim (c # t) = c # t'"
    by blast
  with parseFloat_digit [OF assms, of t'] show ?thesis
    by (auto simp: Let_def)
qed






lemma jneg_Fin: "x \<noteq> NaN \<Longrightarrow> jneg x \<noteq> NaN"
  by (cases x) simp_all










subsection \<open>Airspaces without boundaries\<close>

text \<open>
  Claim C4 states that every airspace in the output of the structured-text parser and of
  the generic parser has a non-empty list of boundaries. \<open>parseStructuredText\<close> pushes every
  titled block, whatever it collected: the text \<open>A1 FOO\<close> is a title line and yields an
  airspace with no boundary.
\<close>

theorem parseStructuredText_counterexample:
  "\<exists>a\<in>set (parseStructuredText ''A1 FOO''). ta_boundaries a = []"
  by code_simp

text \<open>\<open>parseAirspaceText\<close> saves the current airspace only when it has a boundary, and no
  other step of the scan adds to the saved airspaces.\<close>

lemma save_boundaries:
  assumes "\<forall>a\<in>set (airspaces st). pa_boundaries a \<noteq> []"
  shows "\<forall>a\<in>set (save st). pa_boundaries a \<noteq> []"
  using assms by (auto simp: save_def split: option.splits)

lemma scanLine_airspaces:
  assumes "\<forall>a\<in>set (airspaces st). pa_boundaries a \<noteq> []"
  shows "\<forall>a\<in>set (airspaces (scanLine st line)). pa_boundaries a \<noteq> []"
proof (cases "line = []")
  case True
  with assms show ?thesis
    by (simp add: scanLine_def)
next
  case False
  show ?thesis
  proof (cases "match False titleRe line")
    case (Some titleMatch)
    with False save_boundaries [OF assms] show ?thesis
      by (simp add: scanLine_def)
  next
    case None
    with False assms show ?thesis
      by (cases "currentAirspace st") (simp_all add: scanLine_def Let_def)
  qed
qed

lemma foldl_scanLine_airspaces:
  assumes "\<forall>a\<in>set (airspaces st). pa_boundaries a \<noteq> []"
  shows "\<forall>a\<in>set (airspaces (foldl scanLine st lines)). pa_boundaries a \<noteq> []"
  using assms
proof (induction lines arbitrary: st)
  case Nil
  then show ?case by simp
next
  case (Cons line lines)
  from Cons.prems have "\<forall>a\<in>set (airspaces (scanLine st line)). pa_boundaries a \<noteq> []"
    by (rule scanLine_airspaces)
  then show ?case
    by (simp add: Cons.IH)
qed

text \<open>
  Claim C4 as amended: for every text, every airspace in the output of
  \<open>parseAirspaceText\<close> (the scan for \<open>LATERAL LIMITS\<close> and \<open>VERTICAL LIMITS\<close>) and of
  \<open>parseGenericFormat\<close> has a non-empty list of boundaries, so a titled block without
  coordinates never appears in the output of \<open>parseAirspaceText\<close>.
\<close>

theorem parsers_emit_boundaries:
  "(\<forall>a\<in>set (parseAirspaceText text). pa_boundaries a \<noteq> [])
   \<and> (\<forall>a\<in>set (parseGenericFormat text). ta_boundaries a \<noteq> [])"
proof
  have "\<forall>a\<in>set (airspaces \<lparr>airspaces = [], currentAirspace = None,
          readingLateralLimits = False, readingVerticalLimits = False\<rparr>). pa_boundaries a \<noteq> []"
    by simp
  then show "\<forall>a\<in>set (parseAirspaceText text). pa_boundaries a \<noteq> []"
    unfolding parseAirspaceText_def by (intro save_boundaries foldl_scanLine_airspaces)
next
  show "\<forall>a\<in>set (parseGenericFormat text). ta_boundaries a \<noteq> []"
    by (auto simp: parseGenericFormat_def Let_def)
qed

lemma generic_sample:
  "parseGenericFormat ''10 N 20 E'' =
     [\<lparr>ta_id = ''EXTRACTED_AIRSPACE'', ta_name = ''Extracted from DAH'',
       ta_boundaries = [\<lparr>latitude = Fin 10, longitude = Fin 20\<rparr>],
       ta_upperLimit = ''UNL'', ta_lowerLimit = ''GND''\<rparr>]"
  by code_simp

lemma title_without_coordinates:
  "parseAirspaceText ''YBBB/BRISBANE CTA A1\<newline>VERTICAL LIMITS: FL180 - FL245'' = []"
  by code_simp

theorem parsers_emit_boundaries_witness:
  "length (parseAirspaceText
      ''YBBB/BRISBANE CTA A1\<newline>LATERAL LIMITS: 3322225 14822227E\<newline>VERTICAL LIMITS: FL180 - FL245'') = 1
   \<and> pa_boundaries (hd (parseAirspaceText
      ''YBBB/BRISBANE CTA A1\<newline>LATERAL LIMITS: 3322225 14822227E\<newline>VERTICAL LIMITS: FL180 - FL245'')) \<noteq> []
   \<and> length (parseGenericFormat ''10 N 20 E'') = 1
   \<and> ta_boundaries (hd (parseGenericFormat ''10 N 20 E'')) \<noteq> []"
  using parsers_emit_boundaries
    [of "''YBBB/BRISBANE CTA A1\<newline>LATERAL LIMITS: 3322225 14822227E\<newline>VERTICAL LIMITS: FL180 - FL245''"]
    parsers_emit_boundaries [of "''10 N 20 E''"]
  by (simp add: sample_block generic_sample)

subsection \<open>Converting a converted airspace\<close>

lemma toUpperCase_empty: "toUpperCase s = [] \<longleftrightarrow> s = []"
  by (cases s) (simp_all add: toUpperCase_def)

lemma generateId_nonempty: "generateId e prefix \<noteq> []"
  by (simp add: generateId_def toUpperCase_empty)

lemma orElse_nonempty: "d \<noteq> [] \<Longrightarrow> orElse x d \<noteq> []"
  by (simp add: orElse_def split: option.splits)

lemma orElse_Some: "s \<noteq> [] \<Longrightarrow> orElse (Some s) d = s"
  by (simp add: orElse_def)

lemma validate_arrays:
  "valid (validateVATGlassesData \<lparr>d_airspace = Array xs, d_positions = Array ps, d_airports = Array as\<rparr>)
   \<and> errors (validateVATGlassesData \<lparr>d_airspace = Array xs, d_positions = Array ps, d_airports = Array as\<rparr>) = []"
  by (simp add: validateVATGlassesData_def fieldErrors_def Let_def)

lemma convertBoundaries_objects:
  "convertBoundaries bs = Inr cs \<Longrightarrow> length cs = length bs \<and> None \<notin> set cs"
proof (induction bs arbitrary: cs)
  case Nil
  then show ?case by simp
next
  case (Cons b bs)
  then show ?case
    by (cases b) (auto split: sum.splits)
qed

lemma convertBoundaries_returns:
  "None \<notin> set bs \<Longrightarrow> \<exists>cs. convertBoundaries bs = Inr cs \<and> length cs = length bs"
proof (induction bs)
  case Nil
  then show ?case by simp
next
  case (Cons b bs)
  then show ?case
    by (cases b) auto
qed

lemma newBoundaries_objects:
  assumes "newBoundaries bv = Inr cs"
  shows "None \<notin> set cs"
  using assms convertBoundaries_objects
  by (auto simp: newBoundaries_def split: option.splits boundariesVal.splits if_splits)

lemma newBoundaries_returns:
  assumes "None \<notin> set bs"
  shows "\<exists>cs. newBoundaries (Some (BArray bs)) = Inr cs \<and> length cs = length bs"
  using convertBoundaries_returns [OF assms] by (cases bs) (auto simp: newBoundaries_def)

text \<open>\<open>convertAirspace\<close> throws on a \<open>type\<close> that is not a string and on a boundary that
  is \<open>null\<close>; the sample below is converted.\<close>

lemma convertAirspace_sample:
  "convertAirspace \<lparr>timestamp = ''abc'', random = ''xyz''\<rparr>
     \<lparr>o_id = None, o_name = Some ''Sydney'', o_type = Some (TypeStr ''control zone''),
      o_upperLimit = Some (AltStr ''FL245''), o_lowerLimit = Some (AltStr ''GND''),
      o_ceiling = None, o_floor = None,
      o_boundaries = Some (BArray [Some \<lparr>b_latitude = Some (Num (Fin (- 33.5))),
          b_longitude = Some (Str ''151.2''), b_lat = None, b_lon = None\<rparr>]),
      o_conditional = None, o_class = None, o_frequency = None\<rparr>
   = Inr \<lparr>o_id = Some ''AIRSPACE_ABC_XYZ'', o_name = Some ''Sydney'', o_type = Some (TypeStr ''CTR''),
      o_upperLimit = None, o_lowerLimit = None,
      o_ceiling = Some \<lparr>alt_value = Fin 245, alt_unit = ''FL'', alt_reference = ''STD''\<rparr>,
      o_floor = Some \<lparr>alt_value = Fin 0, alt_unit = ''FT'', alt_reference = ''AGL''\<rparr>,
      o_boundaries = Some (BArray [Some \<lparr>b_latitude = None, b_longitude = None,
          b_lat = Some (Fin (- 33.5)), b_lon = Some (Fin 151.2)\<rparr>]),
      o_conditional = None, o_class = None, o_frequency = None\<rparr>"
  by code_simp

lemma convertAirspace_throws:
  "convertAirspace e (airspace\<lparr>o_type := Some TypeOther\<rparr>) = Inl TypeError
   \<and> convertAirspace e (airspace\<lparr>o_type := None, o_boundaries := Some (BArray [None])\<rparr>) = Inl TypeError"
  by (simp add: convertAirspace_def normalizeAirspaceType_def newBoundaries_def)

text \<open>
  Claim C9: \<open>convertAirspace\<close> applied to a record that it produced itself does not throw,
  and the validator accepts the data holding the new record without an error. In a record
  that \<open>convertAirspace\<close> produced, \<open>type\<close> is a string and \<open>boundaries\<close> is an array of
  objects, so neither throwing step is taken; \<open>upperLimit\<close>, \<open>lowerLimit\<close> and the
  \<open>latitude\<close> and \<open>longitude\<close> of each boundary are \<open>undefined\<close> in it and are defaulted.
  The second conversion keeps the identifier and the name, both non-empty, and the number
  of boundaries.
\<close>

theorem reconversion_valid:
  assumes "convertAirspace e1 airspace = Inr v"
  shows "\<exists>v' bs bs'. convertAirspace e2 v = Inr v'
     \<and> valid (validateVATGlassesData
          \<lparr>d_airspace = Array [v'], d_positions = Array [], d_airports = Array []\<rparr>)
     \<and> errors (validateVATGlassesData
          \<lparr>d_airspace = Array [v'], d_positions = Array [], d_airports = Array []\<rparr>) = []
     \<and> o_id v' = o_id v \<and> truthy (o_id v') \<and> o_name v' = o_name v \<and> truthy (o_name v')
     \<and> o_boundaries v = Some (BArray bs) \<and> o_boundaries v' = Some (BArray bs') \<and> length bs' = length bs"
proof -
  from assms obtain t bs where
    t: "normalizeAirspaceType (o_type airspace) = Inr t" and
    bs: "newBoundaries (o_boundaries airspace) = Inr bs" and
    v: "o_type v = Some (TypeStr t)" "o_boundaries v = Some (BArray bs)"
       "o_id v = Some (orElse (o_id airspace) (generateId e1 ''AIRSPACE''))"
       "o_name v = Some (orElse (o_name airspace) ''Unknown Airspace'')"
    by (auto simp: convertAirspace_def split: sum.splits)
  have id1: "orElse (o_id airspace) (generateId e1 ''AIRSPACE'') \<noteq> []"
    by (rule orElse_nonempty) (rule generateId_nonempty)
  have name1: "orElse (o_name airspace) ''Unknown Airspace'' \<noteq> []"
    by (rule orElse_nonempty) simp
  obtain t' where t': "normalizeAirspaceType (o_type v) = Inr t'"
    using v(1) by (cases "t = []") (simp_all add: normalizeAirspaceType_def Let_def)
  from newBoundaries_objects [OF bs] have "None \<notin> set bs" .
  from newBoundaries_returns [OF this] v(2) obtain bs' where
    bs': "newBoundaries (o_boundaries v) = Inr bs'" "length bs' = length bs"
    by auto
  from t' bs' obtain v' where v': "convertAirspace e2 v = Inr v'"
    and "o_id v' = Some (orElse (o_id v) (generateId e2 ''AIRSPACE''))"
    and "o_name v' = Some (orElse (o_name v) ''Unknown Airspace'')"
    and "o_boundaries v' = Some (BArray bs')"
    by (simp add: convertAirspace_def)
  with v id1 name1 bs'(2) validate_arrays [of "[v']" "[]" "[]"] show ?thesis
    by (simp add: orElse_Some truthy_def)
qed

theorem reconversion_valid_witness:
  "\<exists>v v'. convertAirspace \<lparr>timestamp = ''abc'', random = ''xyz''\<rparr>
     \<lparr>o_id = None, o_name = Some ''Sydney'', o_type = Some (TypeStr ''control zone''),
      o_upperLimit = Some (AltStr ''FL245''), o_lowerLimit = Some (AltStr ''GND''),
      o_ceiling = None, o_floor = None,
      o_boundaries = Some (BArray [Some \<lparr>b_latitude = Some (Num (Fin (- 33.5))),
          b_longitude = Some (Str ''151.2''), b_lat = None, b_lon = None\<rparr>]),
      o_conditional = None, o_class = None, o_frequency = None\<rparr> = Inr v
     \<and> convertAirspace \<lparr>timestamp = ''abd'', random = ''uvw''\<rparr> v = Inr v'
     \<and> valid (validateVATGlassesData
          \<lparr>d_airspace = Array [v'], d_positions = Array [], d_airports = Array []\<rparr>)
     \<and> o_id v' = Some ''AIRSPACE_ABC_XYZ''"
proof -
  let ?v = "\<lparr>o_id = Some ''AIRSPACE_ABC_XYZ'', o_name = Some ''Sydney'', o_type = Some (TypeStr ''CTR''),
      o_upperLimit = None, o_lowerLimit = None,
      o_ceiling = Some \<lparr>alt_value = Fin 245, alt_unit = ''FL'', alt_reference = ''STD''\<rparr>,
      o_floor = Some \<lparr>alt_value = Fin 0, alt_unit = ''FT'', alt_reference = ''AGL''\<rparr>,
      o_boundaries = Some (BArray [Some \<lparr>b_latitude = None, b_longitude = None,
          b_lat = Some (Fin (- 33.5)), b_lon = Some (Fin 151.2)\<rparr>]),
      o_conditional = None, o_class = None, o_frequency = None\<rparr>"
  from reconversion_valid [OF convertAirspace_sample, of "\<lparr>timestamp = ''abd'', random = ''uvw''\<rparr>"]
  obtain v' where
    "convertAirspace \<lparr>timestamp = ''abd'', random = ''uvw''\<rparr> ?v = Inr v'"
    "valid (validateVATGlassesData \<lparr>d_airspace = Array [v'], d_positions = Array [], d_airports = Array []\<rparr>)"
    "o_id v' = o_id ?v"
    by blast
  with convertAirspace_sample show ?thesis
    by (intro exI [of _ ?v] exI [of _ v']) simp
qed

subsection \<open>Grouping the rows of a CSV text\<close>

text \<open>
  When no row has an id that an object inherits, \<open>mergeAirspaceBoundaries\<close> returns one
  record for each id, and its boundaries are those of the rows of that id, in the order of
  the rows and then sorted by sequence (\<open>sort_key\<close> is a stable sort). It throws exactly
  when some row has such an id.
\<close>

lemma map_of_extend:
  "map_of (map (\<lambda>(k, v). if k = i then (k, f v) else (k, v)) g) j
     = (if j = i then map_option f (map_of g j) else map_of g j)"
  by (induction g) auto

lemma fst_extend: "fst \<circ> (\<lambda>(k, v). if k = i then (k, f v) else (k, v)) = fst"
  by (auto simp: fun_eq_iff)

lemma groupLoop_groups:
  assumes "groupLoop g rows = Inr g'" and "keyed g"
  shows "keyed g' \<and> fst ` set g' = fst ` set g \<union> sa_id ` set rows
         \<and> (\<forall>i. bs_of g' i = bs_of g i @ concat (map sa_boundaries (filter (\<lambda>r. sa_id r = i) rows)))"
  using assms
proof (induction rows arbitrary: g)
  case Nil
  then show ?case by simp
next
  case (Cons a rows)
  show ?case
  proof (cases "map_of g (sa_id a)")
    case (Some v)
    let ?g1 = "map (\<lambda>(k, v). if k = sa_id a
                  then (k, v\<lparr>sa_boundaries := sa_boundaries v @ sa_boundaries a\<rparr>) else (k, v)) g"
    from Some Cons.prems(1) have loop: "groupLoop ?g1 rows = Inr g'"
      by simp
    have k1: "keyed ?g1"
      using Cons.prems(2) by (auto simp: keyed_def fst_extend split: if_splits)
    have keys: "fst ` set ?g1 = fst ` set g"
      by (simp add: image_image fst_extend [unfolded fun_eq_iff o_def] split_def)
    have mem: "sa_id a \<in> fst ` set g"
      using map_of_SomeD [OF Some] by force
    have bs1: "bs_of ?g1 i = bs_of g i @ (if i = sa_id a then sa_boundaries a else [])" for i
      using Some by (auto simp: bs_of_def map_of_extend split: option.splits)
    from Cons.IH [OF loop k1] keys mem bs1 show ?thesis
      by auto
  next
    case None
    with Cons.prems(1) have loop: "groupLoop (g @ [(sa_id a, a)]) rows = Inr g'"
      by (simp split: if_splits)
    from None have fresh: "sa_id a \<notin> fst ` set g"
      by (simp add: map_of_eq_None_iff)
    have k1: "keyed (g @ [(sa_id a, a)])"
      using Cons.prems(2) fresh by (auto simp: keyed_def)
    have bs1: "bs_of (g @ [(sa_id a, a)]) i = bs_of g i @ (if i = sa_id a then sa_boundaries a else [])" for i
      using None by (auto simp: bs_of_def map_add_def split: option.splits)
    from Cons.IH [OF loop k1] bs1 show ?thesis
      by auto
  qed
qed

lemma groupLoop_returns:
  assumes "\<forall>r\<in>set rows. sa_id r \<notin> set objectPrototypeKeys"
  shows "\<exists>g'. groupLoop g rows = Inr g'"
  using assms by (induction rows arbitrary: g) (auto split: option.splits)

lemma groupLoop_throws:
  assumes "\<exists>r\<in>set rows. sa_id r \<in> set objectPrototypeKeys"
    and "fst ` set g \<inter> set objectPrototypeKeys = {}"
  shows "groupLoop g rows = Inl TypeError"
  using assms
proof (induction rows arbitrary: g)
  case Nil
  then show ?case by simp
next
  case (Cons a rows)
  show ?case
  proof (cases "map_of g (sa_id a)")
    case (Some v)
    from map_of_SomeD [OF Some] have "sa_id a \<in> fst ` set g"
      by force
    with Cons.prems have rest: "\<exists>r\<in>set rows. sa_id r \<in> set objectPrototypeKeys"
      by auto
    have "fst ` set (map (\<lambda>(k, v). if k = sa_id a
              then (k, v\<lparr>sa_boundaries := sa_boundaries v @ sa_boundaries a\<rparr>) else (k, v)) g)
            \<inter> set objectPrototypeKeys = {}"
      using Cons.prems(2) by (simp add: image_image fst_extend [unfolded fun_eq_iff o_def] split_def)
    from Cons.IH [OF rest this] Some show ?thesis
      by simp
  next
    case None
    show ?thesis
    proof (cases "sa_id a \<in> set objectPrototypeKeys")
      case True
      with None show ?thesis by simp
    next
      case False
      with Cons.prems have rest: "\<exists>r\<in>set rows. sa_id r \<in> set objectPrototypeKeys"
        and "fst ` set (g @ [(sa_id a, a)]) \<inter> set objectPrototypeKeys = {}"
        by auto
      from Cons.IH [OF this] None False show ?thesis
        by simp
    qed
  qed
qed

lemma set_objectValues: "set (objectValues g) = snd ` set g"
proof -
  have indexed: "snd ` set (List.map_filter (\<lambda>(k, v). map_option (\<lambda>n. (n, v)) (arrayIndex k)) g)
          = snd ` {x \<in> set g. arrayIndex (fst x) \<noteq> None}"
  proof (induction g)
    case Nil
    then show ?case by simp
  next
    case (Cons x g)
    obtain k v where x: "x = (k, v)"
      by (cases x)
    have "{y \<in> set (x # g). arrayIndex (fst y) \<noteq> None}
            = (if arrayIndex k \<noteq> None then {x} else {}) \<union> {y \<in> set g. arrayIndex (fst y) \<noteq> None}"
      using x by auto
    with Cons.IH x show ?case
      by (cases "arrayIndex k") (simp_all add: image_Un)
  qed
  have others: "snd ` set (filter (\<lambda>(k, v). arrayIndex k = None) g)
          = snd ` {x \<in> set g. arrayIndex (fst x) = None}"
    by (rule arg_cong [where f = "image snd"]) auto
  have "snd ` set g = snd ` ({x \<in> set g. arrayIndex (fst x) \<noteq> None}
                   \<union> {x \<in> set g. arrayIndex (fst x) = None})"
    by (rule arg_cong [where f = "image snd"]) auto
  then have "snd ` set g = snd ` {x \<in> set g. arrayIndex (fst x) \<noteq> None}
                   \<union> snd ` {x \<in> set g. arrayIndex (fst x) = None}"
    by (simp only: image_Un)
  with indexed others show ?thesis
    by (simp add: objectValues_def)
qed

lemma length_objectValues: "length (objectValues g) = length g"
proof -
  have "length (List.map_filter (\<lambda>(k, v). map_option (\<lambda>n. (n, v)) (arrayIndex k)) g)
          + length (filter (\<lambda>(k, v). arrayIndex k = None) g) = length g"
    by (induction g) (auto simp: map_filter_simps split: option.splits)
  then show ?thesis
    by (simp add: objectValues_def)
qed

lemma merge_groups_rows:
  assumes "\<forall>r\<in>set rows. sa_id r \<notin> set objectPrototypeKeys"
  shows "\<exists>out. mergeAirspaceBoundaries rows = Inr out \<and> distinct (map sa_id out)
           \<and> sa_id ` set out = sa_id ` set rows
           \<and> (\<forall>a\<in>set out. sa_boundaries a
                 = sort_key sequence (concat (map sa_boundaries (filter (\<lambda>r. sa_id r = sa_id a) rows))))"
proof -
  from groupLoop_returns [OF assms] obtain g where g: "groupLoop [] rows = Inr g"
    by blast
  have "keyed []"
    by (simp add: keyed_def)
  from groupLoop_groups [OF g this] have
    keyed: "keyed g" and keys: "fst ` set g = sa_id ` set rows" and
    bs: "\<And>i. bs_of g i = concat (map sa_boundaries (filter (\<lambda>r. sa_id r = i) rows))"
    by (simp_all add: bs_of_def)
  define out where "out = map (\<lambda>a. a\<lparr>sa_boundaries := sort_key sequence (sa_boundaries a)\<rparr>) (objectValues g)"
  have res: "mergeAirspaceBoundaries rows = Inr out"
    by (simp add: mergeAirspaceBoundaries_def g out_def)
  have ids: "map sa_id out = map sa_id (objectValues g)"
    by (simp add: out_def)
  have idset: "sa_id ` set out = fst ` set g"
  proof -
    have "sa_id ` snd ` set g = fst ` set g"
      using keyed by (force simp: keyed_def image_iff)
    then show ?thesis
      using ids set_objectValues [of g] by (metis set_map)
  qed
  have "card (set (map sa_id out)) = length (map sa_id out)"
  proof -
    have "card (set (map sa_id out)) = card (fst ` set g)"
      using idset by simp
    also have "\<dots> = length g"
      using keyed distinct_card [of "map fst g"] by (simp add: keyed_def)
    also have "\<dots> = length (map sa_id out)"
      by (simp add: out_def length_objectValues)
    finally show ?thesis .
  qed
  then have dist: "distinct (map sa_id out)"
    by (rule card_distinct)
  have each: "sa_boundaries a
      = sort_key sequence (concat (map sa_boundaries (filter (\<lambda>r. sa_id r = sa_id a) rows)))"
    if "a \<in> set out" for a
  proof -
    from that obtain v where v: "v \<in> set (objectValues g)"
      and a: "a = v\<lparr>sa_boundaries := sort_key sequence (sa_boundaries v)\<rparr>"
      by (auto simp: out_def)
    from v obtain k where kv: "(k, v) \<in> set g"
      by (auto simp: set_objectValues)
    with keyed have "sa_id v = k" and "map_of g k = Some v"
      by (auto simp: keyed_def)
    with bs [of k] have "sa_boundaries v = concat (map sa_boundaries (filter (\<lambda>r. sa_id r = sa_id v) rows))"
      by (simp add: bs_of_def)
    with a show ?thesis
      by simp
  qed
  from res dist idset keys each show ?thesis
    by auto
qed

lemma mergeAirspaceBoundaries_throws:
  "mergeAirspaceBoundaries rows = Inl TypeError \<longleftrightarrow> (\<exists>r\<in>set rows. sa_id r \<in> set objectPrototypeKeys)"
proof (cases "\<exists>r\<in>set rows. sa_id r \<in> set objectPrototypeKeys")
  case True
  then have "groupLoop [] rows = Inl TypeError"
    by (rule groupLoop_throws) simp
  with True show ?thesis
    by (simp add: mergeAirspaceBoundaries_def)
next
  case False
  then have "\<forall>r\<in>set rows. sa_id r \<notin> set objectPrototypeKeys"
    by simp
  from merge_groups_rows [OF this] False show ?thesis
    by auto
qed

lemma merged_sorted_stable:
  assumes "\<forall>r\<in>set rows. sa_id r \<notin> set objectPrototypeKeys"
    and "mergeAirspaceBoundaries rows = Inr out" and "a \<in> set out"
  shows "sorted (map sequence (sa_boundaries a))
     \<and> filter (\<lambda>p. sequence p = k) (sa_boundaries a)
         = filter (\<lambda>p. sequence p = k) (concat (map sa_boundaries (filter (\<lambda>r. sa_id r = sa_id a) rows)))"
proof -
  from merge_groups_rows [OF assms(1)] assms(2,3)
  have "sa_boundaries a
      = sort_key sequence (concat (map sa_boundaries (filter (\<lambda>r. sa_id r = sa_id a) rows)))"
    by auto
  then show ?thesis
    by (simp add: sort_key_stable)
qed

text \<open>The records come in the order of \<open>Object.values\<close>: ids that are array indices
  first, in ascending order, then the other ids in the order of their first row.\<close>

lemma merge_numeric_ids:
  "map (map_sum id (map sa_id)) [mergeAirspaceBoundaries
     [\<lparr>sa_id = ''B'', sa_name = ''n'', sa_type = ''t'', sa_boundaries = [],
       sa_upperLimit = ''UNL'', sa_lowerLimit = ''GND'', sa_conditional = None\<rparr>,
      \<lparr>sa_id = ''10'', sa_name = ''n'', sa_type = ''t'', sa_boundaries = [],
       sa_upperLimit = ''UNL'', sa_lowerLimit = ''GND'', sa_conditional = None\<rparr>,
      \<lparr>sa_id = ''9'', sa_name = ''n'', sa_type = ''t'', sa_boundaries = [],
       sa_upperLimit = ''UNL'', sa_lowerLimit = ''GND'', sa_conditional = None\<rparr>]]
   = [Inr [''9'', ''10'', ''B'']]"
  by code_simp

text \<open>The rows \<open>(A, 2)\<close>, \<open>(A, 1)\<close>, \<open>(B, 1)\<close> give A with its boundaries in the order of
  their sequence numbers and B as a record of its own.\<close>

lemma merge_example:
  "mergeAirspaceBoundaries
     [\<lparr>sa_id = ''A'', sa_name = ''n'', sa_type = ''t'',
       sa_boundaries = [\<lparr>latitude = Fin 2, longitude = Fin 2, sequence = 2\<rparr>],
       sa_upperLimit = ''UNL'', sa_lowerLimit = ''GND'', sa_conditional = None\<rparr>,
      \<lparr>sa_id = ''A'', sa_name = ''n'', sa_type = ''t'',
       sa_boundaries = [\<lparr>latitude = Fin 1, longitude = Fin 1, sequence = 1\<rparr>],
       sa_upperLimit = ''UNL'', sa_lowerLimit = ''GND'', sa_conditional = None\<rparr>,
      \<lparr>sa_id = ''B'', sa_name = ''m'', sa_type = ''t'',
       sa_boundaries = [\<lparr>latitude = Fin 3, longitude = Fin 3, sequence = 1\<rparr>],
       sa_upperLimit = ''UNL'', sa_lowerLimit = ''GND'', sa_conditional = None\<rparr>]
   = Inr [\<lparr>sa_id = ''A'', sa_name = ''n'', sa_type = ''t'',
            sa_boundaries = [\<lparr>latitude = Fin 1, longitude = Fin 1, sequence = 1\<rparr>,
                             \<lparr>latitude = Fin 2, longitude = Fin 2, sequence = 2\<rparr>],
            sa_upperLimit = ''UNL'', sa_lowerLimit = ''GND'', sa_conditional = None\<rparr>,
          \<lparr>sa_id = ''B'', sa_name = ''m'', sa_type = ''t'',
            sa_boundaries = [\<lparr>latitude = Fin 3, longitude = Fin 3, sequence = 1\<rparr>],
            sa_upperLimit = ''UNL'', sa_lowerLimit = ''GND'', sa_conditional = None\<rparr>]"
  by code_simp

text \<open>
  Claim C6 states that for every list of parsed rows the rows of one id are merged into one
  record with their boundaries concatenated and sorted by sequence. For a row whose id is
  the name of a property that every object inherits, such as \<open>constructor\<close>, the lookup
  \<open>grouped[airspace.id]\<close> finds the inherited value, no group is created and
  \<open>grouped[airspace.id].boundaries.push\<close> throws a \<open>TypeError\<close>: no record is returned.
\<close>

theorem merge_inherited_id:
  "mergeAirspaceBoundaries
     [\<lparr>sa_id = ''constructor'', sa_name = ''Unknown'', sa_type = ''UNKNOWN'',
       sa_boundaries = [\<lparr>latitude = Fin 1, longitude = Fin 2, sequence = 1\<rparr>],
       sa_upperLimit = ''UNL'', sa_lowerLimit = ''GND'', sa_conditional = None\<rparr>]
   = Inl TypeError"
  by code_simp

subsection \<open>When the CSV parser throws\<close>

text \<open>The \<open>Error\<close> for a short text is thrown exactly when fewer than two lines are not
  blank; the only other exception of the CSV path is the \<open>TypeError\<close>.\<close>

lemma groupLoop_error: "groupLoop grouped rows = Inl e \<Longrightarrow> e = TypeError"
  by (induction rows arbitrary: grouped) (auto split: option.splits if_splits)

lemma mergeAirspaceBoundaries_error: "mergeAirspaceBoundaries rows = Inl e \<Longrightarrow> e = TypeError"
  by (auto simp: mergeAirspaceBoundaries_def split: sum.splits dest: groupLoop_error)

lemma parseCSVFormat_CsvError:
  "parseCSVFormat content = Inl CsvError \<longleftrightarrow> length (csvLines content) < 2"
  using mergeAirspaceBoundaries_error [of "csvAirspaces content" CsvError]
  by (auto simp: parseCSVFormat_def)

lemma parseCSVFormat_TypeError:
  "parseCSVFormat content = Inl TypeError
     \<longleftrightarrow> 2 \<le> length (csvLines content) \<and> (\<exists>r\<in>set (csvAirspaces content). sa_id r \<in> set objectPrototypeKeys)"
  by (auto simp: parseCSVFormat_def mergeAirspaceBoundaries_throws)

lemma parseCSVFormat_returns:
  "(\<exists>out. parseCSVFormat content = Inr out)
     \<longleftrightarrow> 2 \<le> length (csvLines content) \<and> (\<forall>r\<in>set (csvAirspaces content). sa_id r \<notin> set objectPrototypeKeys)"
proof (cases "parseCSVFormat content")
  case (Inl e)
  then have "e = CsvError \<or> e = TypeError"
    by (cases e) simp_all
  with Inl parseCSVFormat_CsvError [of content] parseCSVFormat_TypeError [of content] show ?thesis
    by auto
next
  case (Inr out)
  with parseCSVFormat_CsvError [of content] parseCSVFormat_TypeError [of content] show ?thesis
    by auto
qed

text \<open>
  Claim C7 states that the CSV parser throws exactly when fewer than two lines remain after
  the blank lines are dropped, and returns for every other text. The text of the header
  \<open>Airspace ID,Name\<close> and the row \<open>constructor,Foo\<close> has two such lines, the detector
  classifies it as CSV, and the parser throws the \<open>TypeError\<close> of
  \<open>mergeAirspaceBoundaries\<close>.
\<close>

theorem parseCSVFormat_inherited_id:
  "detectFileFormat ''Airspace ID,Name\<newline>constructor,Foo'' = Csv
   \<and> length (csvLines ''Airspace ID,Name\<newline>constructor,Foo'') = 2
   \<and> parseCSVFormat ''Airspace ID,Name\<newline>constructor,Foo'' = Inl TypeError"
  by code_simp

text \<open>A row with the wrong number of fields is skipped without an error.\<close>

lemma parseCSVFormat_skips_row:
  "parseCSVFormat ''Airspace ID,Name\<newline>A,Foo,extra\<newline>B,Bar''
   = Inr [\<lparr>sa_id = ''B'', sa_name = ''Bar'', sa_type = ''UNKNOWN'', sa_boundaries = [],
            sa_upperLimit = ''UNL'', sa_lowerLimit = ''GND'', sa_conditional = None\<rparr>]"
  by code_simp

end
